theory Spec2Isabelle
  imports Main
begin

section \<open>JavaScript values and coercions used by the handlers\<close>

text \<open>
  The server is one Express program whose handlers destructure \<open>req.body\<close>. The body is
  modelled as a record: an optional text field is a \<open>string option\<close>, a numeric field an
  \<open>int option\<close> (a JSON number with an integer value, exact for JavaScript's safe integers;
  \<open>None\<close> is an absent field), and a hardware flag, which the handlers compare with both
  \<open>true\<close> and \<open>'true'\<close>, is a \<open>flagval\<close>.

  The fields \<open>seed\<close>, \<open>steps\<close> and \<open>cfg_scale\<close> are a \<open>numval option\<close>: the
  generation handlers take JSON bodies, where they are numbers, and multipart bodies, where
  multer delivers every field that is not a file as text.
\<close>

datatype numval = Num int | Text string

datatype flagval = FlagAbsent | FlagBool bool | FlagStr string

text \<open>\<open>x === true || x === 'true'\<close>\<close>

definition flag_true :: "flagval \<Rightarrow> bool" where
  "flag_true x = (x = FlagBool True \<or> x = FlagStr ''true'')"

text \<open>Truthiness of an optional text field and of an optional number (\<open>if (x)\<close>).\<close>

definition truthy :: "string option \<Rightarrow> bool" where
  "truthy x = (case x of None \<Rightarrow> False | Some s \<Rightarrow> s \<noteq> [])"

definition truthy_num :: "int option \<Rightarrow> bool" where
  "truthy_num x = (case x of None \<Rightarrow> False | Some n \<Rightarrow> n \<noteq> 0)"

text \<open>\<open>x || d\<close> on text and on numbers.\<close>

definition or_else_str :: "string option \<Rightarrow> string \<Rightarrow> string" where
  "or_else_str x d = (case x of None \<Rightarrow> d | Some s \<Rightarrow> if s = [] then d else s)"

definition or_else_num :: "int option \<Rightarrow> int \<Rightarrow> int" where
  "or_else_num x d = (case x of None \<Rightarrow> d | Some n \<Rightarrow> if n = 0 then d else n)"

text \<open>\<open>String(n)\<close> for an integer: its decimal digits, with a sign when negative.\<close>

fun string_of_nat :: "nat \<Rightarrow> string" where
  "string_of_nat n =
     (if n < 10 then [''0123456789'' ! n]
      else string_of_nat (n div 10) @ [''0123456789'' ! (n mod 10)])"

declare string_of_nat.simps [simp del]

definition js_String :: "int \<Rightarrow> string" where
  "js_String n = (if n < 0 then CHR ''-'' # string_of_nat (nat (- n)) else string_of_nat (nat n))"

text \<open>
  \<open>String(x || d)\<close> where the default \<open>d\<close> is a literal of the source given by its
  rendering (\<open>String(0.75)\<close> is \<open>''0.75''\<close>, \<open>String(6.0)\<close> is \<open>''6''\<close>).
\<close>

definition String_or :: "int option \<Rightarrow> string \<Rightarrow> string" where
  "String_or x d = (case x of None \<Rightarrow> d | Some n \<Rightarrow> if n = 0 then d else js_String n)"

text \<open>
  The same \<open>String(x || d)\<close> on a field that is a number or a text: the number 0 and the
  empty text are falsy, every other text is truthy, the text \<open>'0'\<close> too, and is its own
  rendering.
\<close>

definition String_or_val :: "numval option \<Rightarrow> string \<Rightarrow> string" where
  "String_or_val x d =
     (case x of
        None \<Rightarrow> d
      | Some (Num n) \<Rightarrow> if n = 0 then d else js_String n
      | Some (Text s) \<Rightarrow> if s = [] then d else s)"

text \<open>
  \<open>Math.round(w / m) * m\<close> on an integer \<open>w\<close>: \<open>Math.round\<close> rounds a half towards
  plus infinity, so the quotient is \<open>\<lfloor>w / m + 1/2\<rfloor>\<close>, which is \<open>(2 * w + m) div (2 * m)\<close>.
\<close>

definition round_to :: "int \<Rightarrow> int \<Rightarrow> int" where
  "round_to m w = ((2 * w + m) div (2 * m)) * m"

text \<open>\<open>s.includes(p)\<close>\<close>

fun starts_with :: "string \<Rightarrow> string \<Rightarrow> bool" where
  "starts_with s [] = True"
| "starts_with [] (p # ps) = False"
| "starts_with (c # s) (p # ps) = (c = p \<and> starts_with s ps)"

fun includes_str :: "string \<Rightarrow> string \<Rightarrow> bool" where
  "includes_str [] p = (p = [])"
| "includes_str (c # s) p = (starts_with (c # s) p \<or> includes_str s p)"

text \<open>
  \<open>parseInt(x)\<close>, with \<open>None\<close> for NaN. On a text it skips the leading white space
  (the ASCII one here), reads a sign, takes base 16 after \<open>0x\<close> and base 10 otherwise, and
  reads the longest run of digits; no digit at all gives NaN. On a number it gives the
  number back.
\<close>

definition is_space :: "char \<Rightarrow> bool" where
  "is_space c = (c \<in> set [CHR '' '', CHR 0x09, CHR 0x0A, CHR 0x0B, CHR 0x0C, CHR 0x0D])"

definition digit_of :: "char \<Rightarrow> nat option" where
  "digit_of c = map_of (zip ''0123456789abcdef'' [0 ..< 16] @ zip ''ABCDEF'' [10 ..< 16]) c"

definition is_digit :: "nat \<Rightarrow> char \<Rightarrow> bool" where
  "is_digit R c = (case digit_of c of None \<Rightarrow> False | Some v \<Rightarrow> v < R)"

definition digits_value :: "nat \<Rightarrow> string \<Rightarrow> nat" where
  "digits_value R z =
     foldl (\<lambda>a c. a * R + (case digit_of c of None \<Rightarrow> 0 | Some v \<Rightarrow> v)) 0 z"

definition strip_sign :: "string \<Rightarrow> string" where
  "strip_sign t =
     (case t of [] \<Rightarrow> [] | c # rest \<Rightarrow> if c = CHR ''+'' \<or> c = CHR ''-'' then rest else t)"

definition parseInt_text :: "string \<Rightarrow> int option" where
  "parseInt_text s =
     (let t = dropWhile is_space s;
          u = strip_sign t;
          hex = (starts_with u ''0x'' \<or> starts_with u ''0X'');
          R = (if hex then 16 else 10);
          z = takeWhile (is_digit R) (if hex then drop 2 u else u)
      in if z = [] then None
         else Some ((if starts_with t ''-'' then - 1 else 1) * int (digits_value R z)))"

definition parseInt :: "numval option \<Rightarrow> int option" where
  "parseInt x =
     (case x of None \<Rightarrow> None | Some (Num n) \<Rightarrow> Some n | Some (Text s) \<Rightarrow> parseInt_text s)"

text \<open>\<open>parseInt(x) || d\<close>: NaN and 0 are falsy.\<close>

definition parseInt_or :: "numval option \<Rightarrow> int \<Rightarrow> int" where
  "parseInt_or x d = (case parseInt x of None \<Rightarrow> d | Some n \<Rightarrow> if n = 0 then d else n)"

text \<open>
  \<open>parseFloat(x) || d\<close>. The value \<open>parseFloat\<close> reads from a text is a floating-point
  number and is not computed here: it is kept as \<open>ParseFloat\<close> of the text. What is decided
  is whether it is falsy: NaN, when no digit follows the white space and the sign, or zero,
  when every digit of the integer and fraction parts is 0 (an exponent that underflows to
  zero is outside the embedding).
\<close>

datatype jsfloat = OfInt int | ParseFloat string

definition parseFloat_falsy :: "string \<Rightarrow> bool" where
  "parseFloat_falsy s =
     (let u = strip_sign (dropWhile is_space s);
          ip = takeWhile (is_digit 10) u;
          rest = dropWhile (is_digit 10) u;
          fp = (case rest of
                  [] \<Rightarrow> []
                | c # r \<Rightarrow> if c = CHR ''.'' then takeWhile (is_digit 10) r else [])
      in if starts_with u ''Infinity'' then False
         else (ip = [] \<and> fp = []) \<or> list_all (\<lambda>c. c = CHR ''0'') (ip @ fp))"

definition parseFloat_or :: "numval option \<Rightarrow> int \<Rightarrow> jsfloat" where
  "parseFloat_or x d =
     (case x of
        None \<Rightarrow> OfInt d
      | Some (Num n) \<Rightarrow> OfInt (if n = 0 then d else n)
      | Some (Text s) \<Rightarrow> if parseFloat_falsy s then OfInt d else ParseFloat s)"

section \<open>Paths and the filesystem\<close>

text \<open>
  \<open>path.join\<close> is modelled as joining with a slash. The filesystem is the list of the
  paths that exist; a path lies inside a directory when the directory's path and a slash
  start it. The calls succeed on this filesystem (the source wraps them in
  \<open>try\<close>/\<open>catch\<close> blocks that only log).
\<close>

definition path_join :: "string \<Rightarrow> string \<Rightarrow> string" where
  "path_join a b = a @ ''/'' @ b"

text \<open>\<open>path.basename\<close> of a path that does not end in a slash: what follows its last slash.\<close>

fun basename :: "string \<Rightarrow> string" where
  "basename [] = []"
| "basename (c # s) = (if CHR ''/'' \<in> set s then basename s else if c = CHR ''/'' then s else c # s)"

type_synonym fs = "string list"

definition existsSync :: "fs \<Rightarrow> string \<Rightarrow> bool" where
  "existsSync disk p = (p \<in> set disk)"

definition inside :: "string \<Rightarrow> string \<Rightarrow> bool" where
  "inside d p = starts_with p (d @ ''/'')"

definition mkdirSync :: "fs \<Rightarrow> string \<Rightarrow> fs" where
  "mkdirSync disk d = (if d \<in> set disk then disk else disk @ [d])"

definition writeFile :: "fs \<Rightarrow> string \<Rightarrow> fs" where
  "writeFile disk p = (if p \<in> set disk then disk else disk @ [p])"

definition readdir_nonempty :: "fs \<Rightarrow> string \<Rightarrow> bool" where
  "readdir_nonempty disk d = (\<exists>p \<in> set disk. inside d p)"

definition rmSync :: "fs \<Rightarrow> string \<Rightarrow> fs" where
  "rmSync disk d = filter (\<lambda>p. p \<noteq> d \<and> \<not> inside d p) disk"

definition unlinkSync :: "fs \<Rightarrow> string \<Rightarrow> fs" where
  "unlinkSync disk p = filter (\<lambda>q. q \<noteq> p) disk"

record env =
  RESOURCES_PATH :: string
  now :: nat

definition MODELS_DIR :: "env \<Rightarrow> string" where
  "MODELS_DIR e = path_join (RESOURCES_PATH e) ''models''"

definition OUTPUT_DIR :: "env \<Rightarrow> string" where
  "OUTPUT_DIR e = path_join (RESOURCES_PATH e) ''output''"

definition TEMP_DIR :: "env \<Rightarrow> string" where
  "TEMP_DIR e = path_join (RESOURCES_PATH e) ''temp''"

definition model_path :: "env \<Rightarrow> string \<Rightarrow> string \<Rightarrow> string" where
  "model_path e sub f = path_join (path_join (MODELS_DIR e) sub) f"

section \<open>Requests, responses and the server's state\<close>

record body =
  prompt :: "string option"
  negative_prompt :: "string option"
  steps :: "numval option"
  cfg_scale :: "numval option"
  width :: "int option"
  height :: "int option"
  seed :: "numval option"
  guidance :: "int option"
  clip_skip :: "int option"
  batch_size :: "int option"
  loadMode :: "string option"
  diffusionModel :: "string option"
  t5xxl :: "string option"
  llm :: "string option"
  clipL :: "string option"
  clipG :: "string option"
  clipVision :: "string option"
  vae :: "string option"
  scheduler :: "string option"
  samplingMethod :: "string option"
  diffusionFa :: flagval
  vaeTiling :: flagval
  clipOnCpu :: flagval
  offloadToCpu :: flagval
  loraApplyMode :: "string option"
  vaeTileSize :: "int option"
  diffusionConvDirect :: flagval
  vaeConvDirect :: flagval
  forceSDXLVaeConvScale :: flagval
  rngType :: "string option"
  batchCount :: "int option"
  quantizationType :: "string option"
  upscaleModel :: "string option"
  taesdModel :: "string option"
  livePreviewMethod :: "string option"
  photoMaker :: "string option"
  pmStyleStrength :: "int option"
  pmIdEmbedsPath :: "string option"
  pmGalleryImages :: "string list option"
  photoMakerImages :: "string list option"
  kontextRefGallery :: "string option"
  kontextRefPath :: "string option"
  controlNet :: "string option"
  controlStrength :: "int option"
  applyCanny :: flagval
  controlNetImageGallery :: "string option"
  controlImagePath :: "string option"
  strength :: "int option"
  initImagePath :: "string option"
  highNoiseDiffusionModel :: "string option"
  videoFrames :: "int option"
  flowShift :: "int option"
  highNoiseCfg :: "int option"
  highNoiseSteps :: "int option"
  highNoiseSampler :: "string option"

text \<open>
  \<open>pmGalleryImages\<close> arrives as JSON text; the field holds the parsed list, and \<open>None\<close>
  stands for an absent field and for text that does not parse (the source catches that and
  goes on).
\<close>

definition no_body :: body where
  "no_body = \<lparr> prompt = None, negative_prompt = None, steps = None, cfg_scale = None,
     width = None, height = None, seed = None, guidance = None, clip_skip = None,
     batch_size = None, loadMode = None, diffusionModel = None, t5xxl = None, llm = None,
     clipL = None, clipG = None, clipVision = None, vae = None, scheduler = None,
     samplingMethod = None, diffusionFa = FlagAbsent, vaeTiling = FlagAbsent,
     clipOnCpu = FlagAbsent, offloadToCpu = FlagAbsent, loraApplyMode = None,
     vaeTileSize = None, diffusionConvDirect = FlagAbsent, vaeConvDirect = FlagAbsent,
     forceSDXLVaeConvScale = FlagAbsent, rngType = None, batchCount = None,
     quantizationType = None, upscaleModel = None, taesdModel = None,
     livePreviewMethod = None, photoMaker = None, pmStyleStrength = None,
     pmIdEmbedsPath = None, pmGalleryImages = None, photoMakerImages = None,
     kontextRefGallery = None, kontextRefPath = None, controlNet = None,
     controlStrength = None, applyCanny = FlagAbsent, controlNetImageGallery = None,
     controlImagePath = None, strength = None, initImagePath = None,
     highNoiseDiffusionModel = None, videoFrames = None, flowShift = None,
     highNoiseCfg = None, highNoiseSteps = None, highNoiseSampler = None \<rparr>"

text \<open>
  A request after multer has run: the body, the uploaded files as pairs of field name and
  stored path (\<open>req.files\<close>), and the two directories the storage callback records on the
  request.
\<close>

record req =
  body :: body
  files :: "(string \<times> string) list"
  pmImagesDir :: "string option"
  kontextRefDir :: "string option"

definition files_of :: "req \<Rightarrow> string \<Rightarrow> string list" where
  "files_of r field = map snd (filter (\<lambda>f. fst f = field) (files r))"

text \<open>
  A response is its HTTP status (200 when the source calls \<open>res.json\<close> alone) and the
  fields of the JSON it carries.
\<close>

record response =
  status :: nat
  message :: string
  error :: "string option"
  filenames :: "string list option"
  output_text :: "string option"

definition json :: "string \<Rightarrow> response" where
  "json m = \<lparr> status = 200, message = m, error = None, filenames = None, output_text = None \<rparr>"

definition json_status :: "nat \<Rightarrow> string \<Rightarrow> string option \<Rightarrow> response" where
  "json_status c m e = \<lparr> status = c, message = m, error = e, filenames = None, output_text = None \<rparr>"

definition json_complete :: "string list \<Rightarrow> response" where
  "json_complete fns =
     \<lparr> status = 200, message = ''Complete'', error = None, filenames = Some fns, output_text = None \<rparr>"

text \<open>
  The module's globals \<open>sdProcess\<close>, \<open>cliProcess\<close> and \<open>serverLogs\<close>, and the disk.
  A process handle is the identifier the operating system gave the child.
\<close>

type_synonym proc = nat

record server_state =
  sdProcess :: "proc option"
  cliProcess :: "proc option"
  serverLogs :: "string list"
  disk :: fs

text \<open>
  What a spawned child does while the handler awaits it: the chunks it prints, whether it
  writes the output file, and the event that settles the promise: \<open>close\<close> with an exit
  code (\<open>None\<close> is the \<open>null\<close> code of a child ended by a signal) or \<open>error\<close>.
\<close>

datatype child_event = Close "int option" | ProcError string

record child_run =
  child_pid :: proc
  chunks :: "string list"
  writes_output :: bool
  event :: child_event

definition child_effect :: "child_run \<Rightarrow> string \<Rightarrow> fs \<Rightarrow> fs" where
  "child_effect run outputPath d = (if writes_output run then writeFile d outputPath else d)"

text \<open>\<open>new Error(`CLI exited with code ${code}`).message\<close> and \<open>err.message\<close>\<close>

definition exit_message :: "int \<Rightarrow> string" where
  "exit_message code = ''CLI exited with code '' @ js_String code"

section \<open>Pushing onto \<open>args\<close>\<close>

text \<open>
  Each \<open>args.push(flag, value)\<close> of the source is one element of a list of pushes, whose
  head is the flag; the array handed to \<open>spawn\<close> is their concatenation. Keeping the
  pushes apart tells a flag from a value that merely looks like one (a prompt \<open>-m\<close>).
\<close>

type_synonym pushes = "string list list"

text \<open>\<open>if (x) args.push(...)\<close> on an optional text, on an optional number, on a condition.\<close>

definition push_str :: "string option \<Rightarrow> (string \<Rightarrow> string list) \<Rightarrow> pushes" where
  "push_str x f = (case x of None \<Rightarrow> [] | Some s \<Rightarrow> if s = [] then [] else [f s])"

definition push_num :: "int option \<Rightarrow> (int \<Rightarrow> string list) \<Rightarrow> pushes" where
  "push_num x f = (case x of None \<Rightarrow> [] | Some n \<Rightarrow> if n = 0 then [] else [f n])"

definition push_when :: "bool \<Rightarrow> string list \<Rightarrow> pushes" where
  "push_when c ts = (if c then [ts] else [])"

definition flags :: "pushes \<Rightarrow> string list" where
  "flags ps = map hd ps"

section \<open>POST /api/generate-cli\<close>

subsection \<open>The multer storage of \<open>cliUpload\<close>\<close>

record upload =
  fieldname :: string
  originalname :: string

definition cliUpload_file :: "env \<Rightarrow> upload \<Rightarrow> req \<times> fs \<Rightarrow> req \<times> fs" where
  "cliUpload_file e f rd =
     (let r = fst rd; d = snd rd;
          name = string_of_nat (now e) @ ''_'' @ originalname f
      in if fieldname f = ''kontextRefImage'' then
           let kontextDir = path_join (TEMP_DIR e) (''kontext_'' @ string_of_nat (now e));
               p = path_join kontextDir name
           in (r\<lparr> kontextRefDir := Some kontextDir, files := files r @ [(fieldname f, p)] \<rparr>,
               writeFile (mkdirSync d kontextDir) p)
         else
           let dir = (case pmImagesDir r of
                        None \<Rightarrow> path_join (TEMP_DIR e) (''pm_'' @ string_of_nat (now e))
                      | Some x \<Rightarrow> x);
               d1 = (case pmImagesDir r of None \<Rightarrow> mkdirSync d dir | Some x \<Rightarrow> d);
               p = path_join dir name
           in (r\<lparr> pmImagesDir := Some dir, files := files r @ [(fieldname f, p)] \<rparr>,
               writeFile d1 p))"

definition cliUpload :: "env \<Rightarrow> upload list \<Rightarrow> body \<Rightarrow> fs \<Rightarrow> req \<times> fs" where
  "cliUpload e ups b d =
     fold (cliUpload_file e) ups
       (\<lparr> body = b, files = [], pmImagesDir = None, kontextRefDir = None \<rparr>, d)"

subsection \<open>Reference images and the PhotoMaker directory\<close>

text \<open>Priority: uploaded file, then the path of the body, then the gallery name.\<close>

definition uploaded_or :: "env \<Rightarrow> req \<Rightarrow> string \<Rightarrow> string option \<Rightarrow> string option \<Rightarrow> string option" where
  "uploaded_or e r field pathBody gallery =
     (case files_of r field of
        p # ps \<Rightarrow> Some p
      | [] \<Rightarrow> if truthy pathBody then pathBody
              else if truthy gallery then map_option (path_join (OUTPUT_DIR e)) gallery
              else None)"

fun copy_local :: "string \<Rightarrow> string list \<Rightarrow> fs \<Rightarrow> fs" where
  "copy_local dir [] d = d"
| "copy_local dir (imgPath # rest) d =
     copy_local dir rest
       (if existsSync d imgPath then writeFile d (path_join dir (basename imgPath)) else d)"

fun copy_gallery :: "env \<Rightarrow> string \<Rightarrow> string list \<Rightarrow> fs \<Rightarrow> fs" where
  "copy_gallery e dir [] d = d"
| "copy_gallery e dir (gFile # rest) d =
     copy_gallery e dir rest
       (if existsSync d (path_join (OUTPUT_DIR e) gFile) then writeFile d (path_join dir gFile)
        else d)"

text \<open>\<open>if (!pmImagesDir) { pmImagesDir = ...; fs.mkdirSync(pmImagesDir, ...) }\<close>\<close>

definition ensure_pm_dir :: "env \<Rightarrow> string option \<Rightarrow> fs \<Rightarrow> string \<times> fs" where
  "ensure_pm_dir e pm d =
     (case pm of
        None \<Rightarrow> (let dir = path_join (TEMP_DIR e) (''pm_'' @ string_of_nat (now e))
                 in (dir, mkdirSync d dir))
      | Some dir \<Rightarrow> (dir, d))"

definition pm_local :: "env \<Rightarrow> req \<Rightarrow> string option \<times> fs \<Rightarrow> string option \<times> fs" where
  "pm_local e r pd =
     (case photoMakerImages (body r) of
        Some (i # rest) \<Rightarrow>
          (let dd = ensure_pm_dir e (fst pd) (snd pd)
           in (Some (fst dd), copy_local (fst dd) (i # rest) (snd dd)))
      | _ \<Rightarrow> pd)"

definition pm_gallery :: "env \<Rightarrow> req \<Rightarrow> string option \<times> fs \<Rightarrow> string option \<times> fs" where
  "pm_gallery e r pd =
     (case pmGalleryImages (body r) of
        Some (g # rest) \<Rightarrow>
          (let dd = ensure_pm_dir e (fst pd) (snd pd)
           in (Some (fst dd), copy_gallery e (fst dd) (g # rest) (snd dd)))
      | _ \<Rightarrow> pd)"

definition pm_materialize :: "env \<Rightarrow> req \<Rightarrow> fs \<Rightarrow> string option \<times> fs" where
  "pm_materialize e r d = pm_gallery e r (pm_local e r (pmImagesDir r, d))"

subsection \<open>The argument list\<close>

definition cli_model_pushes :: "env \<Rightarrow> body \<Rightarrow> pushes" where
  "cli_model_pushes e b =
     (if loadMode b = Some ''split'' then
        push_str (diffusionModel b) (\<lambda>m. [''--diffusion-model'', model_path e ''diffusion'' m])
        @ push_str (clipL b) (\<lambda>m. [''--clip_l'', model_path e ''clip'' m])
        @ push_str (clipG b) (\<lambda>m. [''--clip_g'', model_path e ''clip'' m])
        @ push_str (clipVision b) (\<lambda>m. [''--clip_vision'', model_path e ''clip_vision'' m])
        @ push_str (t5xxl b) (\<lambda>m. [''--t5xxl'', model_path e ''t5xxl'' m])
        @ push_str (llm b) (\<lambda>m. [''--llm'', model_path e ''llm'' m])
        @ push_str (vae b) (\<lambda>m. [''--vae'', model_path e ''vae'' m])
      else
        push_str (diffusionModel b) (\<lambda>m. [''-m'', model_path e ''diffusion'' m])
        @ push_str (vae b) (\<lambda>m. [''--vae'', model_path e ''vae'' m]))"

definition cli_generation_pushes :: "body \<Rightarrow> string \<Rightarrow> pushes" where
  "cli_generation_pushes b outputPath =
     [[''-p'', or_else_str (prompt b) []]]
     @ push_str (negative_prompt b) (\<lambda>n. [''-n'', n])
     @ [[''--steps'', String_or_val (steps b) ''20''],
        [''--cfg-scale'', String_or_val (cfg_scale b) ''7''],
        [''-W'', js_String (round_to 64 (or_else_num (width b) 1024))],
        [''-H'', js_String (round_to 64 (or_else_num (height b) 1024))],
        [''-s'', String_or_val (seed b) ''-1''],
        [''-o'', outputPath]]"

definition cli_optional_pushes :: "body \<Rightarrow> pushes" where
  "cli_optional_pushes b =
     push_num (guidance b) (\<lambda>g. [''--guidance'', js_String g])
     @ (case clip_skip b of
          None \<Rightarrow> []
        | Some c \<Rightarrow> if c \<noteq> 0 \<and> c \<noteq> - 1 then [[''--clip-skip'', js_String c]] else [])
     @ push_str (scheduler b) (\<lambda>s. [''--scheduler'', s])
     @ push_str (samplingMethod b) (\<lambda>s. [''--sampling-method'', s])
     @ push_str (loraApplyMode b) (\<lambda>s. [''--lora-apply-mode'', s])
     @ push_num (vaeTileSize b) (\<lambda>n. [''--vae-tile-size'', js_String n])
     @ push_str (rngType b) (\<lambda>s. [''--rng'', s])
     @ (case batchCount b of
          None \<Rightarrow> []
        | Some n \<Rightarrow> if n \<noteq> 0 \<and> n > 1 then [[''-b'', js_String n]] else [])"

definition cli_hardware_pushes :: "env \<Rightarrow> fs \<Rightarrow> body \<Rightarrow> pushes" where
  "cli_hardware_pushes e d b =
     (let promptStr = or_else_str (prompt b) [];
          embeddingsDir = path_join (MODELS_DIR e) ''embeddings''
      in push_when (flag_true (diffusionFa b) \<and> \<not> includes_str promptStr ''<lora:'')
           [''--diffusion-fa'']
         @ push_when (flag_true (vaeTiling b)) [''--vae-tiling'']
         @ push_when (flag_true (clipOnCpu b)) [''--clip-on-cpu'']
         @ push_when (flag_true (offloadToCpu b)) [''--offload-to-cpu'']
         @ push_when (flag_true (diffusionConvDirect b)) [''--diffusion-conv-direct'']
         @ push_when (flag_true (vaeConvDirect b)) [''--vae-conv-direct'']
         @ push_when (flag_true (forceSDXLVaeConvScale b)) [''--force-sdxl-vae-conv-scale'']
         @ push_when (existsSync d embeddingsDir) [''--embd-dir'', embeddingsDir]
         @ push_when (includes_str promptStr ''<lora:'')
             [''--lora-model-dir'', path_join (MODELS_DIR e) ''loras''])"

definition cli_feature_pushes :: "env \<Rightarrow> fs \<Rightarrow> body \<Rightarrow> string option \<Rightarrow> pushes" where
  "cli_feature_pushes e d b kontextRef =
     push_str (quantizationType b) (\<lambda>q. [''--type'', q])
     @ push_str kontextRef (\<lambda>p. [''-r'', p]) 
     @ push_str (upscaleModel b) (\<lambda>m. [''--upscale-model'', model_path e ''upscale'' m])
     @ push_str (taesdModel b) (\<lambda>m. [''--taesd'', model_path e ''taesd'' m])
     @ (case livePreviewMethod b of
          None \<Rightarrow> []
        | Some m \<Rightarrow>
            if m = [] then []
            else [[''--preview'', m],
                  [''--preview-path'', path_join (TEMP_DIR e) ''preview.png''],
                  [''--preview-interval'', ''1'']])"

definition cli_photomaker_pushes :: "env \<Rightarrow> fs \<Rightarrow> body \<Rightarrow> string option \<Rightarrow> pushes" where
  "cli_photomaker_pushes e d b pm =
     (case photoMaker b of
        None \<Rightarrow> []
      | Some m \<Rightarrow>
          if m = [] then []
          else [[''--photo-maker'', model_path e ''photomaker'' m]]
               @ (case pm of
                    None \<Rightarrow> []
                  | Some dir \<Rightarrow>
                      push_when (dir \<noteq> [] \<and> existsSync d dir \<and> readdir_nonempty d dir)
                        [''--pm-id-images-dir'', dir])
               @ push_num (pmStyleStrength b) (\<lambda>n. [''--pm-style-strength'', js_String n])
               @ push_str (pmIdEmbedsPath b) (\<lambda>p. [''--pm-id-embed-path'', p]))"

definition cli_controlnet_pushes :: "env \<Rightarrow> fs \<Rightarrow> body \<Rightarrow> string option \<Rightarrow> pushes" where
  "cli_controlnet_pushes e d b controlImage =
     (case controlNet b of
        None \<Rightarrow> []
      | Some m \<Rightarrow>
          if m = [] then []
          else [[''--control-net'', model_path e ''controlnet'' m]]
               @ (case controlImage of
                    None \<Rightarrow> []
                  | Some p \<Rightarrow> push_when (p \<noteq> [] \<and> existsSync d p) [''--control-image'', p])
               @ push_num (controlStrength b) (\<lambda>n. [''--control-strength'', js_String n])
               @ push_when (flag_true (applyCanny b)) [''--canny''])"

text \<open>The pushes of the handler, in the order of the source.\<close>

definition generate_cli_pushes ::
  "env \<Rightarrow> fs \<Rightarrow> req \<Rightarrow> string option \<Rightarrow> string \<Rightarrow> pushes" where
  "generate_cli_pushes e d r pm outputPath =
     (let b = body r;
          kontextRef = uploaded_or e r ''kontextRefImage'' (kontextRefPath b) (kontextRefGallery b);
          controlImage = uploaded_or e r ''controlNetImage'' (controlImagePath b)
                           (controlNetImageGallery b)
      in cli_model_pushes e b
         @ cli_generation_pushes b outputPath
         @ cli_optional_pushes b
         @ cli_hardware_pushes e d b
         @ cli_feature_pushes e d b
             (case kontextRef of None \<Rightarrow> None | Some p \<Rightarrow> if existsSync d p then Some p else None)
         @ cli_photomaker_pushes e d b pm
         @ cli_controlnet_pushes e d b controlImage
         @ [[''-v'']])"

subsection \<open>The handler\<close>

text \<open>
  The handler up to \<open>spawn\<close> either answers at once or leaves a job behind: the array
  given to \<open>spawn\<close>, the output file and the PhotoMaker directory held in its local
  variable. The handler from the settling of the awaited promise on finishes the job.
\<close>

record cli_job =
  args :: "string list"
  filename :: string
  outputPath :: string
  pmDir :: "string option"

definition MODEL_REQUIRED :: response where
  "MODEL_REQUIRED =
     json_status 400
       ''No model selected. Please select a model in the sidebar (Model Configuration section).''
       (Some ''MODEL_REQUIRED'')"

definition generate_cli_begin ::
  "env \<Rightarrow> proc \<Rightarrow> req \<Rightarrow> server_state \<Rightarrow> (response + cli_job) \<times> server_state" where
  "generate_cli_begin e pid r st =
     (let fname = ''gen_'' @ string_of_nat (now e) @ ''.png'';
          out = path_join (OUTPUT_DIR e) fname;
          pd = pm_materialize e r (disk st);
          st1 = st\<lparr> disk := snd pd \<rparr>
      in if \<not> truthy (diffusionModel (body r)) then (Inl MODEL_REQUIRED, st1)
         else (Inr \<lparr> args = concat (generate_cli_pushes e (snd pd) r (fst pd) out),
                      filename = fname, outputPath = out, pmDir = fst pd \<rparr>,
               st1\<lparr> cliProcess := Some pid \<rparr>))"

text \<open>The array the handler hands to \<open>spawn\<close>, empty when it answered before spawning.\<close>

definition args_of_begin :: "(response + cli_job) \<times> server_state \<Rightarrow> string list" where
  "args_of_begin x = (case fst x of Inl resp \<Rightarrow> [] | Inr job \<Rightarrow> args job)"

text \<open>Both cleanup blocks, after the await and in the \<open>catch\<close>, are this one.\<close>

definition cli_cleanup :: "req \<Rightarrow> string option \<Rightarrow> fs \<Rightarrow> fs" where
  "cli_cleanup r pm d =
     (let d1 = (case pm of
                  None \<Rightarrow> d
                | Some dir \<Rightarrow> if dir \<noteq> [] \<and> existsSync d dir then rmSync d dir else d)
      in (case kontextRefDir r of
            None \<Rightarrow> d1
          | Some dir \<Rightarrow> if dir \<noteq> [] \<and> existsSync d1 dir then rmSync d1 dir else d1))"

text \<open>
  The child was spawned with \<open>stdio: 'inherit'\<close>: what it prints goes to the terminal, and
  no \<open>data\<close> handler appends it to \<open>serverLogs\<close>.
\<close>

definition generate_cli_end ::
  "req \<Rightarrow> cli_job \<Rightarrow> child_run \<Rightarrow> server_state \<Rightarrow> response \<times> server_state" where
  "generate_cli_end r job run st =
     (let st1 = st\<lparr> cliProcess := None, disk := child_effect run (outputPath job) (disk st) \<rparr>;
          st2 = st1\<lparr> disk := cli_cleanup r (pmDir job) (disk st1) \<rparr>
      in (case event run of
            Close None \<Rightarrow> (json ''Cancelled'', st2)
          | Close (Some code) \<Rightarrow>
              if code = 0 then
                (if existsSync (disk st2) (outputPath job) then json_complete [filename job]
                 else json_status 500 ''Generation failed - no output file'' None, st2)
              else (json_status 500 ''CLI generation failed'' (Some (exit_message code)), st2)
          | ProcError msg \<Rightarrow> (json_status 500 ''CLI generation failed'' (Some msg), st2)))"

definition generate_cli ::
  "env \<Rightarrow> req \<Rightarrow> child_run \<Rightarrow> server_state \<Rightarrow> response \<times> server_state" where
  "generate_cli e r run st =
     (case generate_cli_begin e (child_pid run) r st of
        (Inl resp, st1) \<Rightarrow> (resp, st1)
      | (Inr job, st1) \<Rightarrow> generate_cli_end r job run st1)"

text \<open>POST /api/cancel-cli: \<open>kill('SIGTERM')\<close> on the tracked child, when there is one.\<close>

definition cancel_cli :: "server_state \<Rightarrow> response \<times> proc option" where
  "cancel_cli st =
     (case cliProcess st of
        Some p \<Rightarrow> (json ''Cancelled'', Some p)
      | None \<Rightarrow> (json ''No CLI process running'', None))"

section \<open>The shared log\<close>

text \<open>
  The \<open>data\<close> handlers that the server child and the inpaint and video children get:
  \<open>serverLogs.push(msg)\<close>.
\<close>

definition on_data :: "string \<Rightarrow> server_state \<Rightarrow> server_state" where
  "on_data msg st = st\<lparr> serverLogs := serverLogs st @ [msg] \<rparr>"

text \<open>\<open>xs.slice(start, end)\<close>: a negative index counts from the end.\<close>

definition js_slice :: "'a list \<Rightarrow> int \<Rightarrow> int \<Rightarrow> 'a list" where
  "js_slice xs start stop =
     (let n = int (length xs);
          s = (if start < 0 then max (n + start) 0 else min start n);
          t = (if stop < 0 then max (n + stop) 0 else min stop n)
      in take (nat (t - s)) (drop (nat s) xs))"

text \<open>GET /api/status: \<open>{ running: !!sdProcess, logs: serverLogs.slice(-50) }\<close>\<close>

definition api_status :: "server_state \<Rightarrow> bool \<times> string list" where
  "api_status st =
     (sdProcess st \<noteq> None, js_slice (serverLogs st) (- 50) (int (length (serverLogs st))))"

text \<open>GET /api/logs: the slice, the total and \<open>hasMore\<close>.\<close>

definition api_logs :: "int option \<Rightarrow> int option \<Rightarrow> server_state \<Rightarrow> string list \<times> nat \<times> bool" where
  "api_logs since_q limit_q st =
     (let since = or_else_num since_q 0; limit = or_else_num limit_q 100;
          logs = js_slice (serverLogs st) since (since + limit)
      in (logs, length (serverLogs st),
          since + int (length logs) < int (length (serverLogs st))))"

text \<open>POST /api/logs/clear\<close>

definition api_logs_clear :: "server_state \<Rightarrow> server_state" where
  "api_logs_clear st = st\<lparr> serverLogs := [] \<rparr>"

section \<open>POST /api/inpaint\<close>

definition inpaintUpload_file :: "env \<Rightarrow> upload \<Rightarrow> req \<times> fs \<Rightarrow> req \<times> fs" where
  "inpaintUpload_file e f rd =
     (let p = path_join (TEMP_DIR e) (fieldname f @ ''_'' @ string_of_nat (now e) @ ''.png'')
      in ((fst rd)\<lparr> files := files (fst rd) @ [(fieldname f, p)] \<rparr>, writeFile (snd rd) p))"

definition inpaintUpload :: "env \<Rightarrow> upload list \<Rightarrow> body \<Rightarrow> fs \<Rightarrow> req \<times> fs" where
  "inpaintUpload e ups b d =
     fold (inpaintUpload_file e) ups
       (\<lparr> body = b, files = [], pmImagesDir = None, kontextRefDir = None \<rparr>, d)"

definition inpaint_model_pushes :: "env \<Rightarrow> body \<Rightarrow> pushes" where
  "inpaint_model_pushes e b =
     (if loadMode b = Some ''split'' then
        push_str (diffusionModel b) (\<lambda>m. [''--diffusion-model'', model_path e ''diffusion'' m])
        @ push_str (clipL b) (\<lambda>m. [''--clip_l'', model_path e ''clip'' m])
        @ push_str (clipG b) (\<lambda>m. [''--clip_g'', model_path e ''clip'' m])
        @ push_str (t5xxl b) (\<lambda>m. [''--t5xxl'', model_path e ''t5xxl'' m])
        @ push_str (llm b) (\<lambda>m. [''--llm'', model_path e ''llm'' m])
        @ push_str (vae b) (\<lambda>m. [''--vae'', model_path e ''vae'' m])
      else
        push_str (diffusionModel b) (\<lambda>m. [''-m'', model_path e ''diffusion'' m])
        @ push_str (vae b) (\<lambda>m. [''--vae'', model_path e ''vae'' m]))"

definition inpaint_image_pushes :: "body \<Rightarrow> string \<Rightarrow> string option \<Rightarrow> pushes" where
  "inpaint_image_pushes b initImg maskPath =
     [[''-i'', initImg]]
     @ push_str maskPath (\<lambda>m. [''--mask'', m])
     @ [[''--strength'', String_or (strength b) ''0.75'']]"

definition inpaint_generation_pushes :: "body \<Rightarrow> string \<Rightarrow> pushes" where
  "inpaint_generation_pushes b out =
     [[''-p'', or_else_str (prompt b) []]]
     @ push_str (negative_prompt b) (\<lambda>n. [''-n'', n])
     @ [[''--steps'', String_or_val (steps b) ''20''],
        [''--cfg-scale'', String_or_val (cfg_scale b) ''7''],
        [''-s'', String_or_val (seed b) ''-1''],
        [''-o'', out]]"

definition inpaint_optional_pushes :: "env \<Rightarrow> body \<Rightarrow> pushes" where
  "inpaint_optional_pushes e b =
     push_num (guidance b) (\<lambda>g. [''--guidance'', js_String g])
     @ push_str (scheduler b) (\<lambda>s. [''--scheduler'', s])
     @ push_str (samplingMethod b) (\<lambda>s. [''--sampling-method'', s])
     @ push_when (flag_true (vaeTiling b)) [''--vae-tiling'']
     @ push_when (flag_true (clipOnCpu b)) [''--clip-on-cpu'']
     @ push_when (flag_true (offloadToCpu b)) [''--offload-to-cpu'']
     @ push_when (truthy (prompt b) \<and> includes_str (or_else_str (prompt b) []) ''<lora:'')
         [''--lora-model-dir'', path_join (MODELS_DIR e) ''loras'']"

definition inpaint_pushes :: "env \<Rightarrow> body \<Rightarrow> string \<Rightarrow> string option \<Rightarrow> string \<Rightarrow> pushes" where
  "inpaint_pushes e b initImg maskPath out =
     inpaint_model_pushes e b
     @ inpaint_image_pushes b initImg maskPath
     @ inpaint_generation_pushes b out
     @ inpaint_optional_pushes e b
     @ [[''-v'']]"

definition inpaint_begin ::
  "env \<Rightarrow> proc \<Rightarrow> req \<Rightarrow> server_state \<Rightarrow> (response + cli_job) \<times> server_state" where
  "inpaint_begin e pid r st =
     (let b = body r;
          initImg = (case files_of r ''initImage'' of
                       p # ps \<Rightarrow> Some p
                     | [] \<Rightarrow> if truthy (initImagePath b)
                             then map_option (path_join (OUTPUT_DIR e)) (initImagePath b)
                             else None)
      in (case initImg of
            None \<Rightarrow> (Inl (json_status 400 ''Init image required'' None), st)
          | Some img \<Rightarrow>
              if img = [] \<or> \<not> existsSync (disk st) img
              then (Inl (json_status 400 ''Init image required'' None), st)
              else
                let maskPath = (case files_of r ''mask'' of p # ps \<Rightarrow> Some p | [] \<Rightarrow> None);
                    fname = ''inpaint_'' @ string_of_nat (now e) @ ''.png'';
                    out = path_join (OUTPUT_DIR e) fname
                in (Inr \<lparr> args = concat (inpaint_pushes e b img maskPath out),
                           filename = fname, outputPath = out, pmDir = None \<rparr>,
                    st\<lparr> cliProcess := Some pid \<rparr>)))"

text \<open>\<open>try { fs.unlinkSync(path) } catch (e) { }\<close> on the first upload of a field.\<close>

definition unlink_upload :: "req \<Rightarrow> string \<Rightarrow> fs \<Rightarrow> fs" where
  "unlink_upload r field d = (case files_of r field of p # ps \<Rightarrow> unlinkSync d p | [] \<Rightarrow> d)"

definition inpaint_end ::
  "req \<Rightarrow> cli_job \<Rightarrow> child_run \<Rightarrow> server_state \<Rightarrow> response \<times> server_state" where
  "inpaint_end r job run st =
     (let st0 = fold on_data (chunks run) st;
          st1 = st0\<lparr> cliProcess := None, disk := child_effect run (outputPath job) (disk st0) \<rparr>;
          st2 = st1\<lparr> disk := unlink_upload r ''mask'' (unlink_upload r ''initImage'' (disk st1)) \<rparr>
      in (case event run of
            Close None \<Rightarrow> (json ''Cancelled'', st2)
          | Close (Some code) \<Rightarrow>
              if code = 0 then
                (if existsSync (disk st2) (outputPath job) then json_complete [filename job]
                 else (json_status 500 ''Inpainting failed - no output file'' None)
                        \<lparr> output_text := Some (concat (chunks run)) \<rparr>, st2)
              else (json_status 500 ''Inpainting failed'' (Some (exit_message code)), st2)
          | ProcError msg \<Rightarrow> (json_status 500 ''Inpainting failed'' (Some msg), st2)))"

definition inpaint ::
  "env \<Rightarrow> req \<Rightarrow> child_run \<Rightarrow> server_state \<Rightarrow> response \<times> server_state" where
  "inpaint e r run st =
     (case inpaint_begin e (child_pid run) r st of
        (Inl resp, st1) \<Rightarrow> (resp, st1)
      | (Inr job, st1) \<Rightarrow> inpaint_end r job run st1)"

section \<open>POST /api/generate-video\<close>

definition videoUpload :: "env \<Rightarrow> bool \<Rightarrow> body \<Rightarrow> fs \<Rightarrow> req \<times> fs" where
  "videoUpload e has_file b d =
     (let p = path_join (TEMP_DIR e) (''video_init_'' @ string_of_nat (now e) @ ''.png'')
      in if has_file
         then (\<lparr> body = b, files = [(''initImage'', p)], pmImagesDir = None,
                  kontextRefDir = None \<rparr>, writeFile d p)
         else (\<lparr> body = b, files = [], pmImagesDir = None, kontextRefDir = None \<rparr>, d))"

definition video_model_pushes :: "env \<Rightarrow> fs \<Rightarrow> req \<Rightarrow> pushes" where
  "video_model_pushes e d r =
     (let b = body r;
          initImg = (case files_of r ''initImage'' of
                       p # ps \<Rightarrow> Some p
                     | [] \<Rightarrow> if truthy (initImagePath b)
                             then map_option (path_join (OUTPUT_DIR e)) (initImagePath b)
                             else None)
      in [[''-M'', ''vid_gen'']]
         @ push_str (diffusionModel b) (\<lambda>m. [''--diffusion-model'', model_path e ''diffusion'' m])
         @ push_str (highNoiseDiffusionModel b)
             (\<lambda>m. [''--high-noise-diffusion-model'', model_path e ''diffusion'' m])
         @ push_str (t5xxl b) (\<lambda>m. [''--t5xxl'', model_path e ''t5xxl'' m])
         @ push_str (vae b) (\<lambda>m. [''--vae'', model_path e ''vae'' m])
         @ push_str (clipVision b) (\<lambda>m. [''--clip_vision'', model_path e ''clip_vision'' m])
         @ (case initImg of
              None \<Rightarrow> []
            | Some img \<Rightarrow> push_when (img \<noteq> [] \<and> existsSync d img) [''-i'', img]))"

definition video_generation_pushes :: "body \<Rightarrow> string \<Rightarrow> pushes" where
  "video_generation_pushes b out =
     [[''-p'', or_else_str (prompt b) ''a beautiful scene'']]
     @ push_str (negative_prompt b) (\<lambda>n. [''-n'', n])
     @ [[''--steps'', String_or_val (steps b) ''20''],
        [''--cfg-scale'', String_or_val (cfg_scale b) ''6''],
        [''-W'', js_String (round_to 16 (or_else_num (width b) 832))],
        [''-H'', js_String (round_to 16 (or_else_num (height b) 480))],
        [''-s'', String_or_val (seed b) ''-1''],
        [''-o'', out],
        [''--video-frames'', js_String (or_else_num (videoFrames b) 33)],
        [''--flow-shift'', String_or (flowShift b) ''3'']]"

definition video_optional_pushes :: "body \<Rightarrow> pushes" where
  "video_optional_pushes b =
     (if truthy (highNoiseDiffusionModel b) then
        push_num (highNoiseCfg b) (\<lambda>n. [''--high-noise-cfg-scale'', js_String n])
        @ push_num (highNoiseSteps b) (\<lambda>n. [''--high-noise-steps'', js_String n])
        @ push_str (highNoiseSampler b) (\<lambda>s. [''--high-noise-sampling-method'', s])
      else [])
     @ push_num (guidance b) (\<lambda>g. [''--guidance'', js_String g])
     @ push_str (scheduler b) (\<lambda>s. [''--scheduler'', s])
     @ push_str (samplingMethod b) (\<lambda>s. [''--sampling-method'', s])"

definition video_hardware_pushes :: "env \<Rightarrow> body \<Rightarrow> pushes" where
  "video_hardware_pushes e b =
     push_when (flag_true (diffusionFa b)) [''--diffusion-fa'']
     @ push_when (flag_true (vaeTiling b)) [''--vae-tiling'']
     @ push_when (flag_true (clipOnCpu b)) [''--clip-on-cpu'']
     @ push_when (flag_true (offloadToCpu b)) [''--offload-to-cpu'']
     @ push_when (truthy (prompt b) \<and> includes_str (or_else_str (prompt b) []) ''<lora:'')
         [''--lora-model-dir'', path_join (MODELS_DIR e) ''loras'']
     @ push_str (quantizationType b) (\<lambda>q. [''--type'', q])"

definition video_pushes :: "env \<Rightarrow> fs \<Rightarrow> req \<Rightarrow> string \<Rightarrow> pushes" where
  "video_pushes e d r out =
     video_model_pushes e d r
     @ video_generation_pushes (body r) out
     @ video_optional_pushes (body r)
     @ video_hardware_pushes e (body r)
     @ [[''-v'']]"

text \<open>This handler has no early answer: it always reaches \<open>spawn\<close>.\<close>

definition generate_video_begin ::
  "env \<Rightarrow> proc \<Rightarrow> req \<Rightarrow> server_state \<Rightarrow> (response + cli_job) \<times> server_state" where
  "generate_video_begin e pid r st =
     (let fname = ''video_'' @ string_of_nat (now e) @ ''.mp4'';
          out = path_join (OUTPUT_DIR e) fname
      in (Inr \<lparr> args = concat (video_pushes e (disk st) r out),
                 filename = fname, outputPath = out, pmDir = None \<rparr>,
          st\<lparr> cliProcess := Some pid \<rparr>))"

definition generate_video_end ::
  "req \<Rightarrow> cli_job \<Rightarrow> child_run \<Rightarrow> server_state \<Rightarrow> response \<times> server_state" where
  "generate_video_end r job run st =
     (let st0 = fold on_data (chunks run) st;
          st1 = st0\<lparr> cliProcess := None, disk := child_effect run (outputPath job) (disk st0) \<rparr>;
          st2 = st1\<lparr> disk := unlink_upload r ''initImage'' (disk st1) \<rparr>
      in (case event run of
            Close None \<Rightarrow> (json ''Cancelled'', st2)
          | Close (Some code) \<Rightarrow>
              if code = 0 then
                (if existsSync (disk st2) (outputPath job) then json_complete [filename job]
                 else (json_status 500 ''Video generation failed - no output file'' None)
                        \<lparr> output_text := Some (concat (chunks run)) \<rparr>, st2)
              else (json_status 500 ''Video generation failed'' (Some (exit_message code)), st2)
          | ProcError msg \<Rightarrow> (json_status 500 ''Video generation failed'' (Some msg), st2)))"

definition generate_video ::
  "env \<Rightarrow> req \<Rightarrow> child_run \<Rightarrow> server_state \<Rightarrow> response \<times> server_state" where
  "generate_video e r run st =
     (case generate_video_begin e (child_pid run) r st of
        (Inl resp, st1) \<Rightarrow> (resp, st1)
      | (Inr job, st1) \<Rightarrow> generate_video_end r job run st1)"

section \<open>POST /api/generate (server mode)\<close>

record payload =
  p_prompt :: "string option"
  p_negative_prompt :: string
  p_n :: int
  p_size :: string
  p_response_format :: string
  p_steps :: int
  p_sample_steps :: int
  p_num_inference_steps :: int
  p_cfg_scale :: jsfloat
  p_seed :: int
  p_guidance :: "int option"
  p_clip_skip :: "int option"

text \<open>\<open>Math.round(width / 64) * 64\<close> inside the template: an absent width gives NaN.\<close>

definition size_part :: "int option \<Rightarrow> string" where
  "size_part w = (case w of None \<Rightarrow> ''NaN'' | Some n \<Rightarrow> js_String (round_to 64 n))"

definition make_payload :: "body \<Rightarrow> payload" where
  "make_payload b =
     (let stepsVal = parseInt_or (steps b) 20
      in \<lparr> p_prompt = prompt b,
           p_negative_prompt = or_else_str (negative_prompt b) [],
           p_n = 1,
           p_size = size_part (width b) @ ''x'' @ size_part (height b),
           p_response_format = ''b64_json'',
           p_steps = stepsVal,
           p_sample_steps = stepsVal,
           p_num_inference_steps = stepsVal,
           p_cfg_scale = parseFloat_or (cfg_scale b) 7,
           p_seed = parseInt_or (seed b) (- 1),
           p_guidance = (if truthy_num (guidance b) then guidance b else None),
           p_clip_skip = (if truthy_num (clip_skip b) then clip_skip b else None) \<rparr>)"





section \<open>The flags each block of the builder can push\<close>

lemma flags_append: "flags (a @ b) = flags a @ flags b"
  by (simp add: flags_def)

lemma flag_absent_iff: "filter (\<lambda>p. hd p = k) ps = [] \<longleftrightarrow> k \<notin> set (flags ps)"
  by (auto simp: flags_def filter_empty_conv)

lemma cli_model_flags:
  "set (flags (cli_model_pushes e b)) \<subseteq>
     (if loadMode b = Some ''split''
      then {''--diffusion-model'', ''--clip_l'', ''--clip_g'', ''--clip_vision'', ''--t5xxl'',
            ''--llm'', ''--vae''}
      else {''-m'', ''--vae''})"
  by (auto simp: cli_model_pushes_def push_str_def flags_def split: option.splits)

lemma cli_generation_flags:
  "set (flags (cli_generation_pushes b out)) \<subseteq>
     {''-p'', ''-n'', ''--steps'', ''--cfg-scale'', ''-W'', ''-H'', ''-s'', ''-o''}"
  by (auto simp: cli_generation_pushes_def push_str_def flags_def split: option.splits)

lemma cli_optional_flags:
  "set (flags (cli_optional_pushes b)) \<subseteq>
     {''--guidance'', ''--clip-skip'', ''--scheduler'', ''--sampling-method'',
      ''--lora-apply-mode'', ''--vae-tile-size'', ''--rng'', ''-b''}"
  by (auto simp: cli_optional_pushes_def push_str_def push_num_def flags_def split: option.splits)

lemma cli_hardware_flags:
  "set (flags (cli_hardware_pushes e d b)) \<subseteq>
     (if flag_true (diffusionFa b) \<and> \<not> includes_str (or_else_str (prompt b) []) ''<lora:''
      then {''--diffusion-fa''} else {}) \<union>
     {''--vae-tiling'', ''--clip-on-cpu'', ''--offload-to-cpu'', ''--diffusion-conv-direct'',
      ''--vae-conv-direct'', ''--force-sdxl-vae-conv-scale'', ''--embd-dir'',
      ''--lora-model-dir''}"
  by (auto simp: cli_hardware_pushes_def Let_def push_when_def flags_def)

lemma cli_feature_flags:
  "set (flags (cli_feature_pushes e d b kr)) \<subseteq>
     {''--type'', ''-r'', ''--upscale-model'', ''--taesd'', ''--preview'', ''--preview-path'',
      ''--preview-interval''}"
  by (auto simp: cli_feature_pushes_def push_str_def flags_def split: option.splits)

lemma cli_photomaker_flags:
  "set (flags (cli_photomaker_pushes e d b pm)) \<subseteq>
     {''--photo-maker'', ''--pm-id-images-dir'', ''--pm-style-strength'', ''--pm-id-embed-path''}"
  by (auto simp: cli_photomaker_pushes_def push_str_def push_num_def push_when_def flags_def
      split: option.splits)

lemma cli_controlnet_flags:
  "set (flags (cli_controlnet_pushes e d b ci)) \<subseteq>
     {''--control-net'', ''--control-image'', ''--control-strength'', ''--canny''}"
  by (auto simp: cli_controlnet_pushes_def push_str_def push_num_def push_when_def flags_def
      split: option.splits)

lemma inpaint_model_flags:
  "set (flags (inpaint_model_pushes e b)) \<subseteq>
     (if loadMode b = Some ''split''
      then {''--diffusion-model'', ''--clip_l'', ''--clip_g'', ''--t5xxl'', ''--llm'', ''--vae''}
      else {''-m'', ''--vae''})"
  by (auto simp: inpaint_model_pushes_def push_str_def flags_def split: option.splits)

lemma inpaint_image_flags:
  "set (flags (inpaint_image_pushes b initImg maskPath)) \<subseteq> {''-i'', ''--mask'', ''--strength''}"
  by (auto simp: inpaint_image_pushes_def push_str_def flags_def split: option.splits)

lemma inpaint_generation_flags:
  "set (flags (inpaint_generation_pushes b out)) \<subseteq>
     {''-p'', ''-n'', ''--steps'', ''--cfg-scale'', ''-s'', ''-o''}"
  by (auto simp: inpaint_generation_pushes_def push_str_def flags_def split: option.splits)

lemma inpaint_optional_flags:
  "set (flags (inpaint_optional_pushes e b)) \<subseteq>
     {''--guidance'', ''--scheduler'', ''--sampling-method'', ''--vae-tiling'', ''--clip-on-cpu'',
      ''--offload-to-cpu'', ''--lora-model-dir''}"
  by (auto simp: inpaint_optional_pushes_def push_str_def push_num_def push_when_def flags_def
      split: option.splits)





lemma video_generation_flags:
  "set (flags (video_generation_pushes b out)) \<subseteq>
     {''-p'', ''-n'', ''--steps'', ''--cfg-scale'', ''-W'', ''-H'', ''-s'', ''-o'',
      ''--video-frames'', ''--flow-shift''}"
  by (auto simp: video_generation_pushes_def push_str_def flags_def split: option.splits)

lemma absent_from:
  "set (flags ps) \<subseteq> S \<Longrightarrow> k \<notin> S \<Longrightarrow> filter (\<lambda>p. hd p = k) ps = []"
  by (auto simp: flag_absent_iff)

lemma cli_generation_filters:
  "filter (\<lambda>p. hd p = ''-W'') (cli_generation_pushes b out) =
     [[''-W'', js_String (round_to 64 (or_else_num (width b) 1024))]]"
  "filter (\<lambda>p. hd p = ''-H'') (cli_generation_pushes b out) =
     [[''-H'', js_String (round_to 64 (or_else_num (height b) 1024))]]"
  "filter (\<lambda>p. hd p = ''-s'') (cli_generation_pushes b out) =
     [[''-s'', String_or_val (seed b) ''-1'']]"
  "filter (\<lambda>p. hd p = ''--steps'') (cli_generation_pushes b out) =
     [[''--steps'', String_or_val (steps b) ''20'']]"
  "filter (\<lambda>p. hd p = ''--cfg-scale'') (cli_generation_pushes b out) =
     [[''--cfg-scale'', String_or_val (cfg_scale b) ''7'']]"
  by (simp_all add: cli_generation_pushes_def push_str_def split: option.splits)

text \<open>Outside its generation block the text-to-image builder pushes none of these flags.\<close>

lemma cli_filter_generation:
  assumes "k \<in> {''-W'', ''-H'', ''-s'', ''--steps'', ''--cfg-scale''}"
  shows "filter (\<lambda>p. hd p = k) (generate_cli_pushes e d r pm out) =
         filter (\<lambda>p. hd p = k) (cli_generation_pushes (body r) out)"
proof -
  have "filter (\<lambda>p. hd p = k) (cli_model_pushes e (body r)) = []"
    using assms by (intro absent_from [OF cli_model_flags]) auto
  moreover have "filter (\<lambda>p. hd p = k) (cli_optional_pushes (body r)) = []"
    using assms by (intro absent_from [OF cli_optional_flags]) auto
  moreover have "filter (\<lambda>p. hd p = k) (cli_hardware_pushes e d (body r)) = []"
    using assms by (intro absent_from [OF cli_hardware_flags]) auto
  moreover have "filter (\<lambda>p. hd p = k) (cli_feature_pushes e d (body r) kr) = []" for kr
    using assms by (intro absent_from [OF cli_feature_flags]) auto
  moreover have "filter (\<lambda>p. hd p = k) (cli_photomaker_pushes e d (body r) pm) = []"
    using assms by (intro absent_from [OF cli_photomaker_flags]) auto
  moreover have "filter (\<lambda>p. hd p = k) (cli_controlnet_pushes e d (body r) ci) = []" for ci
    using assms by (intro absent_from [OF cli_controlnet_flags]) auto
  moreover have "hd [''-v''] \<noteq> k"
    using assms by auto
  ultimately show ?thesis
    by (simp add: generate_cli_pushes_def Let_def)
qed




section \<open>Decimal renderings\<close>

lemma string_of_nat_nonempty: "string_of_nat n \<noteq> []"
  by (subst string_of_nat.simps) simp

lemma string_of_nat_zero: "string_of_nat n = ''0'' \<Longrightarrow> n = 0"
proof -
  assume a: "string_of_nat n = ''0''"
  show "n = 0"
  proof (cases "n < 10")
    case True
    then have "n \<in> {0, 1, 2, 3, 4, 5, 6, 7, 8, 9}" by auto
    with a show ?thesis
      by (subst (asm) string_of_nat.simps) auto
  next
    case False
    with a have "string_of_nat (n div 10) @ [''0123456789'' ! (n mod 10)] = ''0''"
      by (subst (asm) string_of_nat.simps) simp
    then have "string_of_nat (n div 10) = []" by simp
    then show ?thesis using string_of_nat_nonempty by blast
  qed
qed

lemma js_String_zero: "js_String n = ''0'' \<Longrightarrow> n = 0"
  by (auto simp: js_String_def dest: string_of_nat_zero split: if_splits)

text \<open>A field that is a number, or absent, is never rendered as \<open>0\<close>.\<close>

lemma String_or_val_zero:
  assumes "String_or_val x d = ''0''" and "d \<noteq> ''0''"
  shows "\<exists>s. x = Some (Text s)"
proof (cases x)
  case None
  with assms show ?thesis by (simp add: String_or_val_def)
next
  case (Some v)
  show ?thesis
  proof (cases v)
    case (Num n)
    with Some assms show ?thesis
      by (auto simp: String_or_val_def dest: js_String_zero split: if_splits)
  next
    case (Text s)
    with Some show ?thesis by simp
  qed
qed

lemma parse_zero_text: "parseInt_text ''0'' = Some 0" "parseFloat_falsy ''0''"
  by code_simp+

section \<open>Where the model and the flash-attention flags can come from\<close>

lemma cli_filter_model:
  assumes "k \<in> {''-m'', ''--diffusion-model''}"
  shows "filter (\<lambda>p. hd p = k) (generate_cli_pushes e d r pm out) =
         filter (\<lambda>p. hd p = k) (cli_model_pushes e (body r))"
proof -
  have "filter (\<lambda>p. hd p = k) (cli_generation_pushes (body r) out) = []"
    using assms by (intro absent_from [OF cli_generation_flags]) auto
  moreover have "filter (\<lambda>p. hd p = k) (cli_optional_pushes (body r)) = []"
    using assms by (intro absent_from [OF cli_optional_flags]) auto
  moreover have "filter (\<lambda>p. hd p = k) (cli_hardware_pushes e d (body r)) = []"
    using assms by (intro absent_from [OF cli_hardware_flags]) auto
  moreover have "filter (\<lambda>p. hd p = k) (cli_feature_pushes e d (body r) kr) = []" for kr
    using assms by (intro absent_from [OF cli_feature_flags]) auto
  moreover have "filter (\<lambda>p. hd p = k) (cli_photomaker_pushes e d (body r) pm) = []"
    using assms by (intro absent_from [OF cli_photomaker_flags]) auto
  moreover have "filter (\<lambda>p. hd p = k) (cli_controlnet_pushes e d (body r) ci) = []" for ci
    using assms by (intro absent_from [OF cli_controlnet_flags]) auto
  moreover have "hd [''-v''] \<noteq> k"
    using assms by auto
  ultimately show ?thesis
    by (simp add: generate_cli_pushes_def Let_def)
qed

lemma inpaint_filter_model:
  assumes "k \<in> {''-m'', ''--diffusion-model''}"
  shows "filter (\<lambda>p. hd p = k) (inpaint_pushes e b img mk out) =
         filter (\<lambda>p. hd p = k) (inpaint_model_pushes e b)"
proof -
  have "filter (\<lambda>p. hd p = k) (inpaint_image_pushes b img mk) = []"
    using assms by (intro absent_from [OF inpaint_image_flags]) auto
  moreover have "filter (\<lambda>p. hd p = k) (inpaint_generation_pushes b out) = []"
    using assms by (intro absent_from [OF inpaint_generation_flags]) auto
  moreover have "filter (\<lambda>p. hd p = k) (inpaint_optional_pushes e b) = []"
    using assms by (intro absent_from [OF inpaint_optional_flags]) auto
  moreover have "hd [''-v''] \<noteq> k"
    using assms by auto
  ultimately show ?thesis
    by (simp add: inpaint_pushes_def)
qed

lemma cli_filter_fa:
  "filter (\<lambda>p. hd p = ''--diffusion-fa'') (generate_cli_pushes e d r pm out) =
   filter (\<lambda>p. hd p = ''--diffusion-fa'') (cli_hardware_pushes e d (body r))"
proof -
  have "filter (\<lambda>p. hd p = ''--diffusion-fa'') (cli_model_pushes e (body r)) = []"
    by (intro absent_from [OF cli_model_flags]) auto
  moreover have "filter (\<lambda>p. hd p = ''--diffusion-fa'') (cli_generation_pushes (body r) out) = []"
    by (intro absent_from [OF cli_generation_flags]) auto
  moreover have "filter (\<lambda>p. hd p = ''--diffusion-fa'') (cli_optional_pushes (body r)) = []"
    by (intro absent_from [OF cli_optional_flags]) auto
  moreover have "filter (\<lambda>p. hd p = ''--diffusion-fa'') (cli_feature_pushes e d (body r) kr) = []" for kr
    by (intro absent_from [OF cli_feature_flags]) auto
  moreover have "filter (\<lambda>p. hd p = ''--diffusion-fa'') (cli_photomaker_pushes e d (body r) pm) = []"
    by (intro absent_from [OF cli_photomaker_flags]) auto
  moreover have "filter (\<lambda>p. hd p = ''--diffusion-fa'') (cli_controlnet_pushes e d (body r) ci) = []" for ci
    by (intro absent_from [OF cli_controlnet_flags]) auto
  ultimately show ?thesis
    by (simp add: generate_cli_pushes_def Let_def)
qed

lemma cli_suppresses_fa:
  assumes "includes_str (or_else_str (prompt (body r)) []) ''<lora:''"
  shows "''--diffusion-fa'' \<notin> set (flags (generate_cli_pushes e d r pm out))"
proof -
  have "filter (\<lambda>p. hd p = ''--diffusion-fa'') (cli_hardware_pushes e d (body r)) = []"
    using assms by (intro absent_from [OF cli_hardware_flags]) auto
  then show ?thesis
    by (simp add: flag_absent_iff [symmetric] cli_filter_fa)
qed

lemma inpaint_never_fa:
  "''--diffusion-fa'' \<notin> set (flags (inpaint_pushes e b img mk out))"
proof -
  have "filter (\<lambda>p. hd p = ''--diffusion-fa'') (inpaint_model_pushes e b) = []"
    by (intro absent_from [OF inpaint_model_flags]) auto
  moreover have "filter (\<lambda>p. hd p = ''--diffusion-fa'') (inpaint_image_pushes b img mk) = []"
    by (intro absent_from [OF inpaint_image_flags]) auto
  moreover have "filter (\<lambda>p. hd p = ''--diffusion-fa'') (inpaint_generation_pushes b out) = []"
    by (intro absent_from [OF inpaint_generation_flags]) auto
  moreover have "filter (\<lambda>p. hd p = ''--diffusion-fa'') (inpaint_optional_pushes e b) = []"
    by (intro absent_from [OF inpaint_optional_flags]) auto
  ultimately show ?thesis
    by (simp add: flag_absent_iff [symmetric] inpaint_pushes_def)
qed

section \<open>The log and the data handlers\<close>

lemma js_slice_last_50:
  "js_slice xs (- 50) (int (length xs)) = drop (length xs - 50) xs"
  by (auto simp: js_slice_def Let_def max_def nat_diff_distrib')

lemma fold_on_data: "serverLogs (fold on_data cs s) = serverLogs s @ cs"
  by (induction cs arbitrary: s) (simp_all add: on_data_def)

lemma fold_on_data_rest:
  "cliProcess (fold on_data cs s) = cliProcess s" "disk (fold on_data cs s) = disk s"
  "sdProcess (fold on_data cs s) = sdProcess s"
  by (induction cs arbitrary: s) (simp_all add: on_data_def)

section \<open>The claims\<close>

subsection \<open>C1: a second request on the cli slot\<close>

text \<open>
  C1, as the specification states it: a request to POST /api/generate-cli that arrives while
  a cli process is running is rejected at once and leaves the running job's state unchanged.
  The handler does not do that. At this request, with process 1 tracked as the running cli
  child, it answers nothing yet: it builds the arguments, spawns child 2 and stores child 2
  in \<open>cliProcess\<close>, in place of child 1.
\<close>

theorem C1_running_cli_job_is_overwritten:
  "fst (generate_cli_begin \<lparr> RESOURCES_PATH = ''/app'', now = 1700 \<rparr> 2
      \<lparr> body = no_body\<lparr> diffusionModel := Some ''sd15.safetensors'', prompt := Some ''a cat'' \<rparr>,
        files = [], pmImagesDir = None, kontextRefDir = None \<rparr>
      \<lparr> sdProcess = None, cliProcess = Some 1, serverLogs = [], disk = [] \<rparr>) =
     Inr \<lparr> args = [''-m'', ''/app/models/diffusion/sd15.safetensors'', ''-p'', ''a cat'',
                  ''--steps'', ''20'', ''--cfg-scale'', ''7'', ''-W'', ''1024'', ''-H'', ''1024'',
                  ''-s'', ''-1'', ''-o'', ''/app/output/gen_1700.png'', ''-v''],
           filename = ''gen_1700.png'', outputPath = ''/app/output/gen_1700.png'',
           pmDir = None \<rparr>
   \<and> cliProcess (snd (generate_cli_begin \<lparr> RESOURCES_PATH = ''/app'', now = 1700 \<rparr> 2
      \<lparr> body = no_body\<lparr> diffusionModel := Some ''sd15.safetensors'', prompt := Some ''a cat'' \<rparr>,
        files = [], pmImagesDir = None, kontextRefDir = None \<rparr>
      \<lparr> sdProcess = None, cliProcess = Some 1, serverLogs = [], disk = [] \<rparr>)) = Some 2"
  by code_simp

text \<open>
  C1, amended to what the handler does: it never reads \<open>cliProcess\<close> before it spawns.
  Whatever process is tracked (one, or none), a request that names a model is never refused:
  it spawns its child at once and that child becomes the tracked cli process (nothing is
  queued). A request that names no model is answered MODEL_REQUIRED, and the tracked
  process stays what it was.
\<close>

theorem C1_cli_request_never_refused_as_busy:
  "(truthy (diffusionModel (body r)) \<longrightarrow>
      (\<exists>job. fst (generate_cli_begin e pid r st) = Inr job)
      \<and> cliProcess (snd (generate_cli_begin e pid r st)) = Some pid)
   \<and> (\<not> truthy (diffusionModel (body r)) \<longrightarrow>
      fst (generate_cli_begin e pid r st) = Inl MODEL_REQUIRED
      \<and> cliProcess (snd (generate_cli_begin e pid r st)) = cliProcess st)"
  by (simp add: generate_cli_begin_def Let_def)

text \<open>
  C1, amended, at the request above: process 1 is running, the request names a model, a job
  is started and process 2 is tracked.
\<close>

theorem C1_cli_request_never_refused_as_busy_witness:
  "(\<exists>job. fst (generate_cli_begin \<lparr> RESOURCES_PATH = ''/app'', now = 1700 \<rparr> 2
      \<lparr> body = no_body\<lparr> diffusionModel := Some ''sd15.safetensors'' \<rparr>,
        files = [], pmImagesDir = None, kontextRefDir = None \<rparr>
      \<lparr> sdProcess = None, cliProcess = Some 1, serverLogs = [], disk = [] \<rparr>) = Inr job)
   \<and> cliProcess (snd (generate_cli_begin \<lparr> RESOURCES_PATH = ''/app'', now = 1700 \<rparr> 2
      \<lparr> body = no_body\<lparr> diffusionModel := Some ''sd15.safetensors'' \<rparr>,
        files = [], pmImagesDir = None, kontextRefDir = None \<rparr>
      \<lparr> sdProcess = None, cliProcess = Some 1, serverLogs = [], disk = [] \<rparr>)) = Some 2"
  using C1_cli_request_never_refused_as_busy [of
      "\<lparr> body = no_body\<lparr> diffusionModel := Some ''sd15.safetensors'' \<rparr>,
        files = [], pmImagesDir = None, kontextRefDir = None \<rparr>"
      "\<lparr> RESOURCES_PATH = ''/app'', now = 1700 \<rparr>" 2
      "\<lparr> sdProcess = None, cliProcess = Some 1, serverLogs = [], disk = [] \<rparr>"]
  by (simp add: truthy_def no_body_def)

subsection \<open>C3: rounding of width and height\<close>



subsection \<open>C4: seeds of a server-mode batch\<close>




subsection \<open>C5: the two load strategies\<close>

text \<open>
  C5: in the text-to-image builder and in the inpaint builder, a request with
  \<open>loadMode = 'split'\<close> never pushes the flag \<open>-m\<close>, and a request with any other load mode
  (the standard one) never pushes the flag \<open>--diffusion-model\<close>. A flag is the head of a
  push: a value that merely reads \<open>-m\<close>, such as a prompt, is not one.
\<close>

theorem C5_load_strategies_exclusive:
  "(loadMode (body r) = Some ''split'' \<longrightarrow>
      ''-m'' \<notin> set (flags (generate_cli_pushes e d r pm out)))
   \<and> (loadMode (body r) \<noteq> Some ''split'' \<longrightarrow>
      ''--diffusion-model'' \<notin> set (flags (generate_cli_pushes e d r pm out)))
   \<and> (loadMode b = Some ''split'' \<longrightarrow>
      ''-m'' \<notin> set (flags (inpaint_pushes e b img mk out')))
   \<and> (loadMode b \<noteq> Some ''split'' \<longrightarrow>
      ''--diffusion-model'' \<notin> set (flags (inpaint_pushes e b img mk out')))"
proof (intro conjI impI)
  assume "loadMode (body r) = Some ''split''"
  then have "filter (\<lambda>p. hd p = ''-m'') (cli_model_pushes e (body r)) = []"
    by (intro absent_from [OF cli_model_flags]) simp
  then show "''-m'' \<notin> set (flags (generate_cli_pushes e d r pm out))"
    by (simp add: flag_absent_iff [symmetric] cli_filter_model)
next
  assume "loadMode (body r) \<noteq> Some ''split''"
  then have "filter (\<lambda>p. hd p = ''--diffusion-model'') (cli_model_pushes e (body r)) = []"
    by (intro absent_from [OF cli_model_flags]) simp
  then show "''--diffusion-model'' \<notin> set (flags (generate_cli_pushes e d r pm out))"
    by (simp add: flag_absent_iff [symmetric] cli_filter_model)
next
  assume "loadMode b = Some ''split''"
  then have "filter (\<lambda>p. hd p = ''-m'') (inpaint_model_pushes e b) = []"
    by (intro absent_from [OF inpaint_model_flags]) simp
  then show "''-m'' \<notin> set (flags (inpaint_pushes e b img mk out'))"
    by (simp add: flag_absent_iff [symmetric] inpaint_filter_model)
next
  assume "loadMode b \<noteq> Some ''split''"
  then have "filter (\<lambda>p. hd p = ''--diffusion-model'') (inpaint_model_pushes e b) = []"
    by (intro absent_from [OF inpaint_model_flags]) simp
  then show "''--diffusion-model'' \<notin> set (flags (inpaint_pushes e b img mk out'))"
    by (simp add: flag_absent_iff [symmetric] inpaint_filter_model)
qed

text \<open>
  C5 at a split request whose prompt reads \<open>-m\<close>, and at a standard inpaint request.
\<close>

theorem C5_load_strategies_exclusive_witness:
  "''-m'' \<notin> set (flags (generate_cli_pushes \<lparr> RESOURCES_PATH = ''/app'', now = 1700 \<rparr> []
      \<lparr> body = no_body\<lparr> loadMode := Some ''split'', diffusionModel := Some ''flux1-dev.gguf'',
                 t5xxl := Some ''t5xxl_fp16.safetensors'', prompt := Some ''-m'' \<rparr>,
        files = [], pmImagesDir = None, kontextRefDir = None \<rparr>
      None ''/app/output/gen_1700.png''))
   \<and> ''--diffusion-model'' \<notin> set (flags (inpaint_pushes \<lparr> RESOURCES_PATH = ''/app'', now = 1700 \<rparr>
      (no_body\<lparr> loadMode := Some ''standard'', diffusionModel := Some ''sd15.safetensors'' \<rparr>)
      ''/app/output/gen_1.png'' None ''/app/output/inpaint_1700.png''))"
  using C5_load_strategies_exclusive [where e = "\<lparr> RESOURCES_PATH = ''/app'', now = 1700 \<rparr>"
      and d = "[]" and pm = None and out = "''/app/output/gen_1700.png''"
      and r = "\<lparr> body = no_body\<lparr> loadMode := Some ''split'',
                 diffusionModel := Some ''flux1-dev.gguf'',
                 t5xxl := Some ''t5xxl_fp16.safetensors'', prompt := Some ''-m'' \<rparr>,
               files = [], pmImagesDir = None, kontextRefDir = None \<rparr>"
      and b = "no_body\<lparr> loadMode := Some ''standard'', diffusionModel := Some ''sd15.safetensors'' \<rparr>"
      and img = "''/app/output/gen_1.png''" and mk = None
      and out' = "''/app/output/inpaint_1700.png''"]
  by simp

subsection \<open>C6: flash attention and LoRA\<close>

text \<open>
  C6 says that every builder drops \<open>--diffusion-fa\<close> when the prompt holds \<open><lora:\<close>. The
  text-to-image builder does (\<open>cli_suppresses_fa\<close>) and the inpaint builder never pushes the
  flag (\<open>inpaint_never_fa\<close>), but the video builder tests the flag alone: for this request,
  with flash attention on and a LoRA tag in the prompt, it pushes both \<open>--diffusion-fa\<close>
  and \<open>--lora-model-dir\<close>.
\<close>

theorem C6_video_keeps_flash_attention_with_lora:
  "flags (video_pushes \<lparr> RESOURCES_PATH = ''/app'', now = 1700 \<rparr> []
      \<lparr> body = no_body\<lparr> diffusionModel := Some ''wan.gguf'',
                 prompt := Some ''<lora:detail:1> a cat'', diffusionFa := FlagBool True \<rparr>,
        files = [], pmImagesDir = None, kontextRefDir = None \<rparr>
      ''/app/output/video_1700.mp4'') =
     [''-M'', ''--diffusion-model'', ''-p'', ''--steps'', ''--cfg-scale'', ''-W'', ''-H'', ''-s'',
      ''-o'', ''--video-frames'', ''--flow-shift'', ''--diffusion-fa'', ''--lora-model-dir'', ''-v'']"
  by code_simp

subsection \<open>C7: the shared log\<close>

text \<open>
  C7, as the specification states it: the shared log is bounded by a fixed capacity. It is
  not: no capacity bounds the length of the log after the \<open>data\<close> handler has run on a
  list of chunks.
\<close>

theorem C7_log_is_not_bounded:
  "\<not> (\<exists>capacity. \<forall>cs. length (serverLogs (fold on_data cs
        \<lparr> sdProcess = Some 1, cliProcess = None, serverLogs = [], disk = [] \<rparr>)) \<le> capacity)"
proof
  assume "\<exists>capacity. \<forall>cs. length (serverLogs (fold on_data cs
        \<lparr> sdProcess = Some 1, cliProcess = None, serverLogs = [], disk = [] \<rparr>)) \<le> capacity"
  then obtain capacity where b: "\<And>cs. length (serverLogs (fold on_data cs
        \<lparr> sdProcess = Some 1, cliProcess = None, serverLogs = [], disk = [] \<rparr>)) \<le> capacity"
    by blast
  have "length (replicate (Suc capacity) ''step'') \<le> capacity"
    using b [of "replicate (Suc capacity) ''step''"] unfolding fold_on_data by simp
  then show False by simp
qed

text \<open>
  C7, amended: each chunk a \<open>data\<close> handler receives is appended at the end of the shared
  log and nothing is ever evicted: the log grows by the number of chunks and keeps every
  earlier entry in place. The inpaint and video handlers append every chunk of their child;
  the text-to-image handler, whose child inherits the terminal, appends none. GET
  /api/status shows the last 50 entries only, and POST /api/logs/clear empties the log.
\<close>

theorem C7_log_grows_without_bound:
  "serverLogs (on_data msg st) = serverLogs st @ [msg]
   \<and> length (serverLogs (fold on_data cs st)) = length (serverLogs st) + length cs
   \<and> take (length (serverLogs st)) (serverLogs (fold on_data cs st)) = serverLogs st
   \<and> serverLogs (snd (inpaint_end r job run st)) = serverLogs st @ chunks run
   \<and> serverLogs (snd (generate_video_end r job run st)) = serverLogs st @ chunks run
   \<and> serverLogs (snd (generate_cli_end r job run st)) = serverLogs st
   \<and> snd (api_status st) = drop (length (serverLogs st) - 50) (serverLogs st)
   \<and> length (snd (api_status st)) \<le> 50
   \<and> serverLogs (api_logs_clear st) = []"
proof -
  have i: "serverLogs (snd (inpaint_end r job run st)) = serverLogs st @ chunks run"
    by (simp add: inpaint_end_def Let_def fold_on_data split: child_event.splits option.splits)
  have v: "serverLogs (snd (generate_video_end r job run st)) = serverLogs st @ chunks run"
    by (simp add: generate_video_end_def Let_def fold_on_data
        split: child_event.splits option.splits)
  have c: "serverLogs (snd (generate_cli_end r job run st)) = serverLogs st"
    by (simp add: generate_cli_end_def Let_def split: child_event.splits option.splits)
  have s: "snd (api_status st) = drop (length (serverLogs st) - 50) (serverLogs st)"
    by (simp add: api_status_def js_slice_last_50)
  show ?thesis
    by (simp add: i v c s fold_on_data on_data_def api_logs_clear_def)
qed

text \<open>
  C7, amended, at a log that holds one entry: the chunk is appended after it, and clearing
  empties the log.
\<close>

theorem C7_log_grows_without_bound_witness:
  "serverLogs (on_data ''step 1/20''
      \<lparr> sdProcess = Some 1, cliProcess = None, serverLogs = [''loading model''], disk = [] \<rparr>) =
     [''loading model'', ''step 1/20'']
   \<and> serverLogs (api_logs_clear
      \<lparr> sdProcess = Some 1, cliProcess = None, serverLogs = [''loading model''], disk = [] \<rparr>) = []"
  using C7_log_grows_without_bound [where msg = "''step 1/20''"
      and st = "\<lparr> sdProcess = Some 1, cliProcess = None, serverLogs = [''loading model''],
                 disk = [] \<rparr>"]
  by simp

subsection \<open>C10: falsy numbers\<close>

text \<open>
  C10, as the specification states it: the text-to-image handler replaces a falsy seed, steps
  and cfg_scale by the defaults, so that seed 0 can never be used. The handler also takes
  multipart bodies, whose fields are text, and the text \<open>'0'\<close> is truthy: for this request,
  which uploads a Kontext reference image and carries seed, steps and cfg_scale as \<open>'0'\<close>,
  the array handed to \<open>spawn\<close> holds \<open>--steps 0\<close>, \<open>--cfg-scale 0\<close> and \<open>-s 0\<close>.
\<close>

theorem C10_text_zero_is_kept:
  "args_of_begin (generate_cli_begin \<lparr> RESOURCES_PATH = ''/app'', now = 1700 \<rparr> 2
      (fst (cliUpload \<lparr> RESOURCES_PATH = ''/app'', now = 1700 \<rparr>
         [\<lparr> fieldname = ''kontextRefImage'', originalname = ''ref.png'' \<rparr>]
         (no_body\<lparr> diffusionModel := Some ''flux-kontext.gguf'', prompt := Some ''a cat'',
                  seed := Some (Text ''0''), steps := Some (Text ''0''),
                  cfg_scale := Some (Text ''0'') \<rparr>)
         []))
      \<lparr> sdProcess = None, cliProcess = None, serverLogs = [],
        disk = snd (cliUpload \<lparr> RESOURCES_PATH = ''/app'', now = 1700 \<rparr>
         [\<lparr> fieldname = ''kontextRefImage'', originalname = ''ref.png'' \<rparr>]
         (no_body\<lparr> diffusionModel := Some ''flux-kontext.gguf'', prompt := Some ''a cat'',
                  seed := Some (Text ''0''), steps := Some (Text ''0''),
                  cfg_scale := Some (Text ''0'') \<rparr>)
         []) \<rparr>) =
     [''-m'', ''/app/models/diffusion/flux-kontext.gguf'', ''-p'', ''a cat'', ''--steps'', ''0'',
      ''--cfg-scale'', ''0'', ''-W'', ''1024'', ''-H'', ''1024'', ''-s'', ''0'', ''-o'',
      ''/app/output/gen_1700.png'', ''-r'', ''/app/temp/kontext_1700/1700_ref.png'', ''-v'']"
  by code_simp

text \<open>
  C10, amended: in the text-to-image handler a seed, steps or cfg_scale that is the number 0
  is sent as \<open>-s -1\<close>, \<open>--steps 20\<close>, \<open>--cfg-scale 7\<close>, and a seed that is a number, or
  absent, never makes the handler push \<open>-s 0\<close>; one that is a text other than the empty
  one, \<open>'0'\<close> included, is sent as it is. The server-mode payload parses before it tests:
  the number 0 and the text \<open>'0'\<close> both give seed -1, the three step counts 20 and
  cfg_scale 7.
\<close>

theorem C10_falsy_numbers_take_defaults:
  "(seed (body r) = Some (Num 0) \<longrightarrow>
      filter (\<lambda>p. hd p = ''-s'') (generate_cli_pushes e d r pm out) = [[''-s'', ''-1'']])
   \<and> (steps (body r) = Some (Num 0) \<longrightarrow>
      filter (\<lambda>p. hd p = ''--steps'') (generate_cli_pushes e d r pm out) = [[''--steps'', ''20'']])
   \<and> (cfg_scale (body r) = Some (Num 0) \<longrightarrow>
      filter (\<lambda>p. hd p = ''--cfg-scale'') (generate_cli_pushes e d r pm out) =
        [[''--cfg-scale'', ''7'']])
   \<and> ((\<forall>s. seed (body r) \<noteq> Some (Text s)) \<longrightarrow>
      [''-s'', ''0''] \<notin> set (generate_cli_pushes e d r pm out))
   \<and> (seed (body r) = Some (Text s) \<and> s \<noteq> [] \<longrightarrow>
      filter (\<lambda>p. hd p = ''-s'') (generate_cli_pushes e d r pm out) = [[''-s'', s]])
   \<and> (steps (body r) = Some (Text s) \<and> s \<noteq> [] \<longrightarrow>
      filter (\<lambda>p. hd p = ''--steps'') (generate_cli_pushes e d r pm out) = [[''--steps'', s]])
   \<and> (cfg_scale (body r) = Some (Text s) \<and> s \<noteq> [] \<longrightarrow>
      filter (\<lambda>p. hd p = ''--cfg-scale'') (generate_cli_pushes e d r pm out) =
        [[''--cfg-scale'', s]])
   \<and> (seed b = Some (Num 0) \<or> seed b = Some (Text ''0'') \<longrightarrow> p_seed (make_payload b) = - 1)
   \<and> (steps b = Some (Num 0) \<or> steps b = Some (Text ''0'') \<longrightarrow>
      p_steps (make_payload b) = 20 \<and> p_sample_steps (make_payload b) = 20
      \<and> p_num_inference_steps (make_payload b) = 20)
   \<and> (cfg_scale b = Some (Num 0) \<or> cfg_scale b = Some (Text ''0'') \<longrightarrow>
      p_cfg_scale (make_payload b) = OfInt 7)"
proof -
  have seed_push: "filter (\<lambda>p. hd p = ''-s'') (generate_cli_pushes e d r pm out) =
      [[''-s'', String_or_val (seed (body r)) ''-1'']]"
    by (simp add: cli_filter_generation cli_generation_filters)
  have steps_push: "filter (\<lambda>p. hd p = ''--steps'') (generate_cli_pushes e d r pm out) =
      [[''--steps'', String_or_val (steps (body r)) ''20'']]"
    by (simp add: cli_filter_generation cli_generation_filters)
  have cfg_push: "filter (\<lambda>p. hd p = ''--cfg-scale'') (generate_cli_pushes e d r pm out) =
      [[''--cfg-scale'', String_or_val (cfg_scale (body r)) ''7'']]"
    by (simp add: cli_filter_generation cli_generation_filters)
  have no_zero: "[''-s'', ''0''] \<notin> set (generate_cli_pushes e d r pm out)"
    if numeric: "\<forall>s. seed (body r) \<noteq> Some (Text s)"
  proof
    assume "[''-s'', ''0''] \<in> set (generate_cli_pushes e d r pm out)"
    then have "[''-s'', ''0''] \<in> set (filter (\<lambda>p. hd p = ''-s'') (generate_cli_pushes e d r pm out))"
      by simp
    then have "String_or_val (seed (body r)) ''-1'' = ''0''"
      by (simp add: seed_push)
    then have "\<exists>s. seed (body r) = Some (Text s)"
      by (rule String_or_val_zero) simp
    with numeric show False by blast
  qed
  have payload:
    "seed b = Some (Num 0) \<or> seed b = Some (Text ''0'') \<longrightarrow> p_seed (make_payload b) = - 1"
    "steps b = Some (Num 0) \<or> steps b = Some (Text ''0'') \<longrightarrow>
      p_steps (make_payload b) = 20 \<and> p_sample_steps (make_payload b) = 20
      \<and> p_num_inference_steps (make_payload b) = 20"
    "cfg_scale b = Some (Num 0) \<or> cfg_scale b = Some (Text ''0'') \<longrightarrow>
      p_cfg_scale (make_payload b) = OfInt 7"
    by (auto simp: make_payload_def Let_def parseInt_or_def parseInt_def parseFloat_or_def
        parse_zero_text)
  show ?thesis
    using no_zero payload
    by (simp add: seed_push steps_push cfg_push String_or_val_def)
qed

text \<open>
  C10, amended, at a request with the numbers 0 and at a payload built from the text
  \<open>'0'\<close>.
\<close>

theorem C10_falsy_numbers_take_defaults_witness:
  "filter (\<lambda>p. hd p = ''-s'') (generate_cli_pushes \<lparr> RESOURCES_PATH = ''/app'', now = 1700 \<rparr> []
      \<lparr> body = no_body\<lparr> diffusionModel := Some ''sd15.safetensors'', seed := Some (Num 0),
                 steps := Some (Num 0), cfg_scale := Some (Num 0) \<rparr>,
        files = [], pmImagesDir = None, kontextRefDir = None \<rparr>
      None ''/app/output/gen_1700.png'') = [[''-s'', ''-1'']]
   \<and> filter (\<lambda>p. hd p = ''--steps'') (generate_cli_pushes \<lparr> RESOURCES_PATH = ''/app'', now = 1700 \<rparr> []
      \<lparr> body = no_body\<lparr> diffusionModel := Some ''sd15.safetensors'', seed := Some (Num 0),
                 steps := Some (Num 0), cfg_scale := Some (Num 0) \<rparr>,
        files = [], pmImagesDir = None, kontextRefDir = None \<rparr>
      None ''/app/output/gen_1700.png'') = [[''--steps'', ''20'']]
   \<and> [''-s'', ''0''] \<notin> set (generate_cli_pushes \<lparr> RESOURCES_PATH = ''/app'', now = 1700 \<rparr> []
      \<lparr> body = no_body\<lparr> diffusionModel := Some ''sd15.safetensors'', seed := Some (Num 0),
                 steps := Some (Num 0), cfg_scale := Some (Num 0) \<rparr>,
        files = [], pmImagesDir = None, kontextRefDir = None \<rparr>
      None ''/app/output/gen_1700.png'')
   \<and> p_seed (make_payload (no_body\<lparr> seed := Some (Text ''0'') \<rparr>)) = - 1"
  using C10_falsy_numbers_take_defaults [where e = "\<lparr> RESOURCES_PATH = ''/app'', now = 1700 \<rparr>"
      and d = "[]" and pm = None and out = "''/app/output/gen_1700.png''"
      and r = "\<lparr> body = no_body\<lparr> diffusionModel := Some ''sd15.safetensors'',
                 seed := Some (Num 0), steps := Some (Num 0), cfg_scale := Some (Num 0) \<rparr>,
               files = [], pmImagesDir = None, kontextRefDir = None \<rparr>"
      and b = "no_body\<lparr> seed := Some (Text ''0'') \<rparr>"]
  by simp

subsection \<open>C2: temporary files of a request\<close>

text \<open>
  Once the child has been spawned, every way the awaited promise settles runs the same
  cleanup: the PhotoMaker directory of the job and the Kontext directory of the request are
  gone from the disk when the handler answers.
\<close>

lemma rmSync_removes: "\<not> existsSync (rmSync d dir) dir"
  by (simp add: rmSync_def existsSync_def)

lemma rmSync_keeps_absent: "\<not> existsSync d p \<Longrightarrow> \<not> existsSync (rmSync d dir) p"
  by (simp add: rmSync_def existsSync_def)

lemma cli_cleanup_removes:
  "(pm = Some dir \<and> dir \<noteq> [] \<longrightarrow> \<not> existsSync (cli_cleanup r pm d) dir)
   \<and> (kontextRefDir r = Some k \<and> k \<noteq> [] \<longrightarrow> \<not> existsSync (cli_cleanup r pm d) k)"
  by (auto simp: cli_cleanup_def Let_def rmSync_def existsSync_def split: option.splits)

lemma generate_cli_end_cleans:
  "(pmDir job = Some dir \<and> dir \<noteq> [] \<longrightarrow>
      \<not> existsSync (disk (snd (generate_cli_end r job run st))) dir)
   \<and> (kontextRefDir r = Some k \<and> k \<noteq> [] \<longrightarrow>
      \<not> existsSync (disk (snd (generate_cli_end r job run st))) k)"
proof -
  have "disk (snd (generate_cli_end r job run st)) =
        cli_cleanup r (pmDir job) (child_effect run (outputPath job) (disk st))"
    by (simp add: generate_cli_end_def Let_def split: child_event.splits option.splits)
  then show ?thesis
    using cli_cleanup_removes [of "pmDir job" dir r "child_effect run (outputPath job) (disk st)" k]
    by simp
qed

text \<open>
  C2 says that every outcome, early rejection included, deletes the temporary files of the
  request. The early answer MODEL_REQUIRED comes after the uploads have been stored and runs
  no cleanup: for this request, which uploads one PhotoMaker image and names no model, the
  handler answers MODEL_REQUIRED and the temporary directory and the uploaded file are
  still on the disk.
\<close>

theorem C2_model_required_leaves_uploads:
  "fst (generate_cli \<lparr> RESOURCES_PATH = ''/app'', now = 1700 \<rparr>
      (fst (cliUpload \<lparr> RESOURCES_PATH = ''/app'', now = 1700 \<rparr>
         [\<lparr> fieldname = ''pmImages'', originalname = ''face.png'' \<rparr>]
         (no_body\<lparr> prompt := Some ''a portrait'', photoMaker := Some ''photomaker-v1.safetensors'' \<rparr>)
         []))
      \<lparr> child_pid = 2, chunks = [], writes_output = True, event = Close (Some 0) \<rparr>
      \<lparr> sdProcess = None, cliProcess = None, serverLogs = [],
        disk = snd (cliUpload \<lparr> RESOURCES_PATH = ''/app'', now = 1700 \<rparr>
         [\<lparr> fieldname = ''pmImages'', originalname = ''face.png'' \<rparr>]
         (no_body\<lparr> prompt := Some ''a portrait'', photoMaker := Some ''photomaker-v1.safetensors'' \<rparr>)
         []) \<rparr>) = MODEL_REQUIRED
   \<and> disk (snd (generate_cli \<lparr> RESOURCES_PATH = ''/app'', now = 1700 \<rparr>
      (fst (cliUpload \<lparr> RESOURCES_PATH = ''/app'', now = 1700 \<rparr>
         [\<lparr> fieldname = ''pmImages'', originalname = ''face.png'' \<rparr>]
         (no_body\<lparr> prompt := Some ''a portrait'', photoMaker := Some ''photomaker-v1.safetensors'' \<rparr>)
         []))
      \<lparr> child_pid = 2, chunks = [], writes_output = True, event = Close (Some 0) \<rparr>
      \<lparr> sdProcess = None, cliProcess = None, serverLogs = [],
        disk = snd (cliUpload \<lparr> RESOURCES_PATH = ''/app'', now = 1700 \<rparr>
         [\<lparr> fieldname = ''pmImages'', originalname = ''face.png'' \<rparr>]
         (no_body\<lparr> prompt := Some ''a portrait'', photoMaker := Some ''photomaker-v1.safetensors'' \<rparr>)
         []) \<rparr>)) = [''/app/temp/pm_1700'', ''/app/temp/pm_1700/1700_face.png'']"
  by code_simp

subsection \<open>C8: a request without a model\<close>

text \<open>
  C8 says that every mode answers a request without a model with a client error before it
  touches the disk or spawns. The video handler and the inpaint handler have no such check:
  for these requests without a model they spawn child 2 with an argument list that names
  no model. The text-to-image handler does answer MODEL_REQUIRED and spawns nothing, but
  only after it has created the PhotoMaker directory and copied the image into it.
\<close>

theorem C8_missing_model_is_not_refused_first:
  "generate_video_begin \<lparr> RESOURCES_PATH = ''/app'', now = 1700 \<rparr> 2
      \<lparr> body = no_body\<lparr> prompt := Some ''a cat'' \<rparr>, files = [], pmImagesDir = None,
        kontextRefDir = None \<rparr>
      \<lparr> sdProcess = None, cliProcess = None, serverLogs = [], disk = [] \<rparr> =
     (Inr \<lparr> args = [''-M'', ''vid_gen'', ''-p'', ''a cat'', ''--steps'', ''20'', ''--cfg-scale'', ''6'',
                   ''-W'', ''832'', ''-H'', ''480'', ''-s'', ''-1'', ''-o'',
                   ''/app/output/video_1700.mp4'', ''--video-frames'', ''33'', ''--flow-shift'', ''3'',
                   ''-v''],
            filename = ''video_1700.mp4'', outputPath = ''/app/output/video_1700.mp4'',
            pmDir = None \<rparr>,
      \<lparr> sdProcess = None, cliProcess = Some 2, serverLogs = [], disk = [] \<rparr>)
   \<and> inpaint_begin \<lparr> RESOURCES_PATH = ''/app'', now = 1700 \<rparr> 2
      \<lparr> body = no_body\<lparr> prompt := Some ''a cat'', initImagePath := Some ''gen_1.png'' \<rparr>,
        files = [], pmImagesDir = None, kontextRefDir = None \<rparr>
      \<lparr> sdProcess = None, cliProcess = None, serverLogs = [],
        disk = [''/app/output/gen_1.png''] \<rparr> =
     (Inr \<lparr> args = [''-i'', ''/app/output/gen_1.png'', ''--strength'', ''0.75'', ''-p'', ''a cat'',
                   ''--steps'', ''20'', ''--cfg-scale'', ''7'', ''-s'', ''-1'', ''-o'',
                   ''/app/output/inpaint_1700.png'', ''-v''],
            filename = ''inpaint_1700.png'', outputPath = ''/app/output/inpaint_1700.png'',
            pmDir = None \<rparr>,
      \<lparr> sdProcess = None, cliProcess = Some 2, serverLogs = [],
        disk = [''/app/output/gen_1.png''] \<rparr>)
   \<and> generate_cli_begin \<lparr> RESOURCES_PATH = ''/app'', now = 1700 \<rparr> 2
      \<lparr> body = no_body\<lparr> prompt := Some ''a cat'', photoMakerImages := Some [''/home/u/face.png''] \<rparr>,
        files = [], pmImagesDir = None, kontextRefDir = None \<rparr>
      \<lparr> sdProcess = None, cliProcess = None, serverLogs = [], disk = [''/home/u/face.png''] \<rparr> =
     (Inl MODEL_REQUIRED,
      \<lparr> sdProcess = None, cliProcess = None, serverLogs = [],
        disk = [''/home/u/face.png'', ''/app/temp/pm_1700'', ''/app/temp/pm_1700/face.png''] \<rparr>)"
  by code_simp

subsection \<open>C9: cancelling a cli job\<close>

text \<open>
  C9: while a text-to-image job is running, POST /api/cancel-cli signals the very child
  the handler awaits; when that child then closes with the \<open>null\<close> code, the handler
  answers \<open>{message: 'Cancelled'}\<close> with status 200 and \<open>cliProcess\<close> is cleared. The
  inpaint and video handlers settle a \<open>null\<close> code the same way.
\<close>

theorem C9_cancelled_job_answers_cancelled:
  assumes "truthy (diffusionModel (body r))" and "event run = Close None"
  shows "snd (cancel_cli (snd (generate_cli_begin e (child_pid run) r st))) = Some (child_pid run)
       \<and> generate_cli e r run st =
           (\<lparr> status = 200, message = ''Cancelled'', error = None, filenames = None,
               output_text = None \<rparr>,
            snd (generate_cli e r run st))
       \<and> cliProcess (snd (generate_cli e r run st)) = None
       \<and> fst (inpaint_end r' job run st') = json ''Cancelled''
       \<and> cliProcess (snd (inpaint_end r' job run st')) = None
       \<and> fst (generate_video_end r' job run st') = json ''Cancelled''
       \<and> cliProcess (snd (generate_video_end r' job run st')) = None"
  using assms
  by (simp add: generate_cli_def generate_cli_begin_def generate_cli_end_def cancel_cli_def
      inpaint_end_def generate_video_end_def Let_def json_def prod_eq_iff)

text \<open>
  C9 at a text-to-image request whose child is ended by the signal.
\<close>

theorem C9_cancelled_job_answers_cancelled_witness:
  "generate_cli \<lparr> RESOURCES_PATH = ''/app'', now = 1700 \<rparr>
      \<lparr> body = no_body\<lparr> diffusionModel := Some ''sd15.safetensors'' \<rparr>,
        files = [], pmImagesDir = None, kontextRefDir = None \<rparr>
      \<lparr> child_pid = 2, chunks = [], writes_output = False, event = Close None \<rparr>
      \<lparr> sdProcess = None, cliProcess = None, serverLogs = [], disk = [] \<rparr> =
     (\<lparr> status = 200, message = ''Cancelled'', error = None, filenames = None,
         output_text = None \<rparr>,
      \<lparr> sdProcess = None, cliProcess = None, serverLogs = [], disk = [] \<rparr>)"
proof -
  have s: "snd (generate_cli \<lparr> RESOURCES_PATH = ''/app'', now = 1700 \<rparr>
      \<lparr> body = no_body\<lparr> diffusionModel := Some ''sd15.safetensors'' \<rparr>,
        files = [], pmImagesDir = None, kontextRefDir = None \<rparr>
      \<lparr> child_pid = 2, chunks = [], writes_output = False, event = Close None \<rparr>
      \<lparr> sdProcess = None, cliProcess = None, serverLogs = [], disk = [] \<rparr>) =
      \<lparr> sdProcess = None, cliProcess = None, serverLogs = [], disk = [] \<rparr>"
    by code_simp
  have m: "truthy (diffusionModel (body \<lparr> body = no_body\<lparr> diffusionModel := Some ''sd15.safetensors'' \<rparr>,
        files = [], pmImagesDir = None, kontextRefDir = None \<rparr>))"
    by (simp add: truthy_def)
  have c: "event \<lparr> child_pid = 2, chunks = [], writes_output = False, event = Close None \<rparr> = Close None"
    by simp
  show ?thesis
    using C9_cancelled_job_answers_cancelled [OF m c, of "\<lparr> RESOURCES_PATH = ''/app'', now = 1700 \<rparr>"
        "\<lparr> sdProcess = None, cliProcess = None, serverLogs = [], disk = [] \<rparr>"]
    unfolding s by simp
qed

end
